theory Spec2Isabelle
  imports Complex_Main
begin

section \<open>Python values, exceptions and string helpers\<close>

text \<open>
  The request body of \<^verbatim>\<open>/chat\<close> is parsed JSON: \<^verbatim>\<open>messages: list\<close> is a list of
  arbitrary JSON values, not only of dictionaries. A dictionary is an association list
  read with \<open>map_of\<close>. Numbers are kept as integers: the code only asks whether a value
  is falsy, which for a number means that it is zero.
\<close>

datatype json =
    JNull
  | JBool bool
  | JNum int
  | JStr string
  | JList "json list"
  | JObj "(string \<times> json) list"

text \<open>Python's truth value of a JSON value (\<^verbatim>\<open>if last_user:\<close>, \<^verbatim>\<open>a or b\<close>).\<close>

fun truthy :: "json \<Rightarrow> bool" where
  "truthy JNull = False"
| "truthy (JBool b) = b"
| "truthy (JNum n) = (n \<noteq> 0)"
| "truthy (JStr s) = (s \<noteq> [])"
| "truthy (JList xs) = (xs \<noteq> [])"
| "truthy (JObj d) = (d \<noteq> [])"

fun is_dict :: "json \<Rightarrow> bool" where
  "is_dict (JObj d) = True"
| "is_dict v = False"

text \<open>\<^verbatim>\<open>m.get(k)\<close> on a dictionary: the value, or \<^verbatim>\<open>None\<close> when the key is absent.\<close>

fun dict_get :: "json \<Rightarrow> string \<Rightarrow> json" where
  "dict_get (JObj d) k = (case map_of d k of None \<Rightarrow> JNull | Some v \<Rightarrow> v)"
| "dict_get v k = JNull"

text \<open>
  The exceptions the modelled code can raise. \<open>HTTPException\<close> carries the status code
  and the detail, as FastAPI's does.
\<close>

datatype exn_class =
    IndexError
  | KeyError
  | TypeError
  | AttributeError
  | ValueError
  | RuntimeError
  | UnboundLocalError
  | RedisConnectionError
  | RedisResponseError

datatype failure =
    Raised exn_class
  | HTTPException nat string

definition newline :: char where
  "newline = CHR 0x0A"

text \<open>\<^verbatim>\<open>sep.join(xs)\<close>.\<close>

fun str_join :: "string \<Rightarrow> string list \<Rightarrow> string" where
  "str_join sep [] = []"
| "str_join sep [x] = x"
| "str_join sep (x # y # ys) = x @ sep @ str_join sep (y # ys)"

text \<open>\<^verbatim>\<open>str(n)\<close> for an integer, as the f-strings \<^verbatim>\<open>f"doc_{i}"\<close> and the quota key use it.\<close>

definition digit_char :: "nat \<Rightarrow> char" where
  "digit_char d = char_of (48 + d)"

fun nat_digits :: "nat \<Rightarrow> string" where
  "nat_digits n = (if n < 10 then [digit_char n] else nat_digits (n div 10) @ [digit_char (n mod 10)])"

declare nat_digits.simps [simp del]

definition str_int :: "int \<Rightarrow> string" where
  "str_int i = (if i < 0 then CHR ''-'' # nat_digits (nat (- i)) else nat_digits (nat i))"

text \<open>
  \<^verbatim>\<open>s.lower()\<close> on the ASCII letters. The code compares the result with ASCII literals
  only, and no character outside ASCII lower-cases to a letter of those literals.
\<close>

definition lower_char :: "char \<Rightarrow> char" where
  "lower_char c =
     (if (65::nat) \<le> of_char c \<and> of_char c \<le> (90::nat) then char_of (of_char c + (32::nat)) else c)"

definition lower :: "string \<Rightarrow> string" where
  "lower s = map lower_char s"

section \<open>providers.py\<close>

subsection \<open>BaseProvider.send\_messages\_stream\<close>

text \<open>
  \<^verbatim>\<open>
  reply = await self.send_messages(messages)
  chunk_size = 64
  for i in range(0, len(reply), chunk_size):
      yield reply[i:i+chunk_size]
  \<close>
  A generator is modelled by what it yields, in order, and the exception that ends it
  early, if any. \<open>stream_chunks i reply\<close> is the loop from index \<open>i\<close> on.
\<close>

definition chunk_size :: nat where
  "chunk_size = 64"

function stream_chunks :: "nat \<Rightarrow> 'a list \<Rightarrow> 'a list list" where
  "stream_chunks i reply =
     (if i < length reply
      then take chunk_size (drop i reply) # stream_chunks (i + chunk_size) reply
      else [])"
  by pat_completeness auto
termination
  by (relation "measure (\<lambda>(i, reply). length reply - i)") (auto simp: chunk_size_def)

declare stream_chunks.simps [simp del]

type_synonym 'a generator = "'a list \<times> failure option"

definition base_send_messages_stream ::
  "(json list \<Rightarrow> failure + string) \<Rightarrow> json list \<Rightarrow> string generator" where
  "base_send_messages_stream send messages =
     (case send messages of
        Inl e \<Rightarrow> ([], Some e)
      | Inr reply \<Rightarrow> (stream_chunks 0 reply, None))"

subsection \<open>Reading the prompt\<close>

text \<open>
  \<^verbatim>\<open>messages[-1]['content']\<close>: an empty list raises IndexError, a last element that
  is no dictionary raises TypeError, a dictionary without the key raises KeyError.
\<close>

definition last_content :: "json list \<Rightarrow> failure + json" where
  "last_content messages =
     (if messages = [] then Inl (Raised IndexError)
      else (case last messages of
              JObj d \<Rightarrow> (case map_of d ''content'' of
                           None \<Rightarrow> Inl (Raised KeyError)
                         | Some v \<Rightarrow> Inr v)
            | _ \<Rightarrow> Inl (Raised TypeError)))"

text \<open>\<^verbatim>\<open>"literal" + v\<close>: concatenation with anything but a string raises TypeError.\<close>

definition str_plus :: "string \<Rightarrow> json \<Rightarrow> failure + string" where
  "str_plus s v = (case v of JStr t \<Rightarrow> Inr (s @ t) | _ \<Rightarrow> Inl (Raised TypeError))"

subsection \<open>OlamaProvider and OpenAIProvider\<close>

text \<open>
  The process environment \<^verbatim>\<open>os.environ\<close>, read by the constructors. A provider is
  constructed for every request by \<^verbatim>\<open>get_provider\<close>, with no argument, so its field
  is \<^verbatim>\<open>None or os.environ.get(...)\<close>.
\<close>

type_synonym environ = "string \<Rightarrow> string option"

text \<open>\<^verbatim>\<open>if not self.url\<close>: the field is \<^verbatim>\<open>None\<close> or the empty string.\<close>

definition unset :: "string option \<Rightarrow> bool" where
  "unset v = (case v of None \<Rightarrow> True | Some s \<Rightarrow> s = [])"

definition olama_send_messages :: "string option \<Rightarrow> json list \<Rightarrow> failure + string" where
  "olama_send_messages url messages =
     (if unset url then Inr ''(olama) olama URL not configured''
      else (case last_content messages of
              Inl e \<Rightarrow> Inl e
            | Inr c \<Rightarrow> str_plus ''(olama) Placeholder reply to: '' c))"

definition openai_send_messages :: "string option \<Rightarrow> json list \<Rightarrow> failure + string" where
  "openai_send_messages api_key messages =
     (if unset api_key then Inr ''(openai) API key not set''
      else (case last_content messages of
              Inl e \<Rightarrow> Inl e
            | Inr c \<Rightarrow> str_plus ''(openai) Placeholder reply to: '' c))"

subsection \<open>GeminiProvider.send\_messages\<close>

text \<open>
  What lies outside the repository is a parameter: whether \<^verbatim>\<open>import google.auth\<close>
  succeeded (\<^verbatim>\<open>google is not None\<close>), the outcome of the Application Default
  Credentials (\<^verbatim>\<open>google.auth.default\<close> followed by \<^verbatim>\<open>creds.refresh\<close>: the token, or
  the exception either call raised), the HTTP exchange, Python's \<^verbatim>\<open>str()\<close> of a JSON
  value and of an exception, and the process environment.
\<close>

record http_request =
  url :: string
  prompt :: json
  params :: "(string \<times> string) list"
  headers :: "(string \<times> string) list"

text \<open>\<open>json_body\<close> is \<open>None\<close> when \<^verbatim>\<open>resp.json()\<close> raises.\<close>

record http_response =
  status_code :: int
  text_body :: string
  json_body :: "json option"

record cloud =
  google_imported :: bool
  adc :: "failure + string"
  post :: "http_request \<Rightarrow> failure + http_response"
  py_str :: "json \<Rightarrow> string"
  exn_str :: "failure \<Rightarrow> string"
  environ :: environ

datatype auth_used = Adc | Api_key

record gemini_handle =
  api_key :: "string option"
  endpoint :: "string option"

text \<open>\<^verbatim>\<open>a or b\<close> on optional strings: \<open>a\<close> when it is set and non-empty, else \<open>b\<close>.\<close>

definition str_or :: "string option \<Rightarrow> string option \<Rightarrow> string option" where
  "str_or a b = (if unset a then b else a)"

definition default_endpoint :: string where
  "default_endpoint =
     ''https://generativelanguage.googleapis.com/v1beta2/models/text-bison-001:generate''"

definition gemini_endpoint :: "cloud \<Rightarrow> gemini_handle \<Rightarrow> string" where
  "gemini_endpoint w self =
     (case str_or (str_or (endpoint self) (environ w ''GEMINI_API_ENDPOINT'')) (Some default_endpoint) of
        Some u \<Rightarrow> u
      | None \<Rightarrow> default_endpoint)"

text \<open>
  Lines 34 to 52 of \<^verbatim>\<open>send_messages\<close>: the credentials. The result is
  \<^verbatim>\<open>auth_used\<close> (\<open>None\<close> for Python's \<^verbatim>\<open>None\<close>), \<^verbatim>\<open>params\<close> and \<^verbatim>\<open>headers\<close>.
  \<^verbatim>\<open>
  params = {}
  headers = {'Content-Type': 'application/json'}
  auth_used = None
  if google is not None:
      try:
          creds, project = google.auth.default(scopes=[...])
          creds.refresh(GoogleAuthRequest())
          token = creds.token
          headers['Authorization'] = f"Bearer {token}"
          auth_used = 'adc'
      except Exception:
          auth_used = None
  if auth_used is None and self.api_key:
      params['key'] = self.api_key
      auth_used = 'api_key'
  \<close>
\<close>

definition gemini_credentials ::
  "cloud \<Rightarrow> gemini_handle \<Rightarrow>
     auth_used option \<times> (string \<times> string) list \<times> (string \<times> string) list" where
  "gemini_credentials w self =
     (let params0 = [];
          headers0 = [(''Content-Type'', ''application/json'')];
          (auth1, headers1) =
            (if google_imported w
             then (case adc w of
                     Inr token \<Rightarrow>
                       (Some Adc, headers0 @ [(''Authorization'', ''Bearer '' @ token)])
                   | Inl e \<Rightarrow> (None, headers0))
             else (None, headers0))
      in (case auth1 of
            None \<Rightarrow>
              (case api_key self of
                 None \<Rightarrow> (None, params0, headers1)
               | Some k \<Rightarrow>
                   (if k = [] then (None, params0, headers1)
                    else (Some Api_key, params0 @ [(''key'', k)], headers1)))
          | Some a \<Rightarrow> (Some a, params0, headers1)))"

text \<open>\<^verbatim>\<open>a or b\<close> on values: \<open>a\<close> when it is truthy, else \<open>b\<close>.\<close>

definition py_or :: "json \<Rightarrow> json \<Rightarrow> json" where
  "py_or a b = (if truthy a then a else b)"

text \<open>
  Lines 63 to 84, the reading of a response. An exception in here (\<^verbatim>\<open>c.get\<close> on a
  candidate that is no dictionary) is caught by the \<^verbatim>\<open>except Exception\<close> of line 85.
\<close>

definition gemini_read_response :: "cloud \<Rightarrow> http_response \<Rightarrow> failure + json" where
  "gemini_read_response w resp =
     (if status_code resp = 200
      then (case json_body resp of
              None \<Rightarrow> Inr (JStr (text_body resp))
            | Some j \<Rightarrow>
                (case j of
                   JObj d \<Rightarrow>
                     (case map_of d ''candidates'' of
                        Some (JList (c # cs)) \<Rightarrow>
                          (if is_dict c
                           then Inr (py_or (dict_get c ''output'')
                                      (py_or (dict_get c ''content'')
                                        (py_or (dict_get c ''text'') (JStr (py_str w c)))))
                           else Inl (Raised AttributeError))
                      | _ \<Rightarrow>
                          (case map_of d ''output'' of
                             Some out \<Rightarrow>
                               (if is_dict out
                                then Inr (py_or (dict_get out ''text'') (JStr (py_str w out)))
                                else Inr (JStr (py_str w out)))
                           | None \<Rightarrow>
                               (case map_of d ''result'' of
                                  Some r \<Rightarrow> Inr (JStr (py_str w r))
                                | None \<Rightarrow>
                                    (case map_of d ''text'' of
                                       Some t \<Rightarrow> Inr (JStr (py_str w t))
                                     | None \<Rightarrow> Inr (JStr (py_str w j))))))
                 | _ \<Rightarrow> Inr (JStr (py_str w j))))
      else Inr (JStr (''(gemini) HTTP '' @ str_int (status_code resp) @ '': '' @ text_body resp)))"

text \<open>
  Lines 60 to 86: the exchange. Whatever is raised inside the \<^verbatim>\<open>try\<close> becomes the
  reply text, so the block returns a value for every request.
\<close>

definition gemini_exchange :: "cloud \<Rightarrow> http_request \<Rightarrow> json" where
  "gemini_exchange w rq =
     (case post w rq of
        Inl e \<Rightarrow> JStr (''(gemini) request failed: '' @ exn_str w e)
      | Inr resp \<Rightarrow>
          (case gemini_read_response w resp of
             Inl e \<Rightarrow> JStr (''(gemini) request failed: '' @ exn_str w e)
           | Inr v \<Rightarrow> v))"

definition gemini_no_credentials :: string where
  "gemini_no_credentials =
     ''(gemini) no credentials available; set GOOGLE_APPLICATION_CREDENTIALS or GEMINI_API_KEY''"

definition gemini_send_messages :: "cloud \<Rightarrow> gemini_handle \<Rightarrow> json list \<Rightarrow> failure + json" where
  "gemini_send_messages w self messages =
     (case gemini_credentials w self of
        (None, ps, hs) \<Rightarrow> Inr (JStr gemini_no_credentials)
      | (Some a, ps, hs) \<Rightarrow>
          (case last_content messages of
             Inl e \<Rightarrow> Inl e
           | Inr c \<Rightarrow>
               Inr (gemini_exchange w
                      \<lparr>url = gemini_endpoint w self, prompt = c, params = ps, headers = hs\<rparr>)))"

subsection \<open>The registry\<close>

datatype provider =
    GeminiProvider gemini_handle
  | OlamaProvider "string option"
  | OpenAIProvider "string option"

text \<open>
  \<^verbatim>\<open>
  def get_provider(name: str):
      cls = PROVIDERS.get(name.lower())
      if not cls:
          return None
      return cls()
  \<close>
  The constructors run with no argument, so each field is read from the environment.
\<close>

definition get_provider :: "environ \<Rightarrow> string \<Rightarrow> provider option" where
  "get_provider env name =
     (if lower name = ''gemini''
      then Some (GeminiProvider
                   \<lparr>api_key = env ''GEMINI_API_KEY'', endpoint = env ''GEMINI_API_ENDPOINT''\<rparr>)
      else if lower name = ''olama'' then Some (OlamaProvider (env ''OLAMA_URL''))
      else if lower name = ''openai'' then Some (OpenAIProvider (env ''OPENAI_API_KEY''))
      else None)"

text \<open>\<^verbatim>\<open>provider.send_messages(messages)\<close>, dispatched on the class.\<close>

definition wrap_str :: "failure + string \<Rightarrow> failure + json" where
  "wrap_str r = (case r of Inl e \<Rightarrow> Inl e | Inr s \<Rightarrow> Inr (JStr s))"

fun send_messages :: "cloud \<Rightarrow> provider \<Rightarrow> json list \<Rightarrow> failure + json" where
  "send_messages w (GeminiProvider self) messages = gemini_send_messages w self messages"
| "send_messages w (OlamaProvider u) messages = wrap_str (olama_send_messages u messages)"
| "send_messages w (OpenAIProvider k) messages = wrap_str (openai_send_messages k messages)"

section \<open>rag\_indexer.py\<close>

text \<open>
  The Chroma collection and the embedding model are outside the repository. The store
  is given by whether the imports of the module succeeded (\<^verbatim>\<open>chromadb is not None\<close>),
  by the entries of the collection (\<open>None\<close> when \<^verbatim>\<open>get_collection\<close> raises, that is
  when nothing was indexed yet), and by \<open>collection_query\<close>, standing for
  \<^verbatim>\<open>_embedder.encode\<close> followed by \<^verbatim>\<open>collection.query\<close>: the result rows, or the
  exception raised. Entries carry the metadata they were indexed with.
\<close>

type_synonym metadata = "(string \<times> json) list"

record chroma_entry =
  entry_id :: string
  entry_document :: string
  entry_metadata :: metadata

record query_result =
  res_documents :: "string list list"
  res_metadatas :: "metadata list list"
  res_distances :: "real list list"

record rag_store =
  chromadb_imported :: bool
  collection :: "chroma_entry list option"
  collection_query :: "chroma_entry list \<Rightarrow> json \<Rightarrow> nat \<Rightarrow> failure + query_result"

text \<open>An element of the list \<^verbatim>\<open>query\<close> returns: \<^verbatim>\<open>{'document', 'metadata', 'distance'}\<close>.\<close>

record hit =
  document :: string
  metadata :: metadata
  distance :: real

text \<open>
  \<^verbatim>\<open>
  def query(query_text: str, k: int = 3):
      _init()
      try:
          collection = _client.get_collection(_COLLECTION_NAME)
      except Exception:
          return []
      q_embed = _embedder.encode([query_text])
      results = collection.query(query_embeddings=..., n_results=k, include=[...])
      out = []
      for docs, metas, dists in zip(results.get('documents', []), ...):
          for doc, meta, dist in zip(docs, metas, dists):
              out.append({'document': doc, 'metadata': meta, 'distance': dist})
      return out
  \<close>
  The function takes no tenant. \<^verbatim>\<open>main.py\<close> imports it as \<^verbatim>\<open>rag_query\<close>.
\<close>

definition zip3 :: "'a list \<Rightarrow> 'b list \<Rightarrow> 'c list \<Rightarrow> ('a \<times> 'b \<times> 'c) list" where
  "zip3 xs ys zs = zip xs (zip ys zs)"

definition rag_query :: "rag_store \<Rightarrow> json \<Rightarrow> nat \<Rightarrow> failure + hit list" where
  "rag_query st query_text k =
     (if \<not> chromadb_imported st then Inl (Raised RuntimeError)
      else (case collection st of
              None \<Rightarrow> Inr []
            | Some entries \<Rightarrow>
                (case collection_query st entries query_text k of
                   Inl e \<Rightarrow> Inl e
                 | Inr results \<Rightarrow>
                     Inr (concat
                            (map (\<lambda>(docs, metas, dists).
                                    map (\<lambda>(doc, meta, dist).
                                           \<lparr>document = doc, metadata = meta, distance = dist\<rparr>)
                                      (zip3 docs metas dists))
                               (zip3 (res_documents results) (res_metadatas results)
                                  (res_distances results)))))))"

section \<open>main.py\<close>

subsection \<open>The counter store\<close>

text \<open>
  Redis is outside the repository; the two commands the code issues are modelled after
  their documented behaviour. A key holds a counter and, optionally, the time at which
  it expires; an expired key is a missing key. \<^verbatim>\<open>INCR\<close> creates a missing key with
  value 1 and keeps the expiry of an existing one; a counter is a signed 64-bit integer,
  and \<^verbatim>\<open>INCR\<close> of a counter at its largest value is refused with an error, which the
  client raises as a response error. \<^verbatim>\<open>EXPIRE\<close> sets the expiry of an existing key to
  the given number of seconds from now.
\<close>

record redis_entry =
  r_value :: int
  r_expire_at :: "real option"

type_synonym redis_db = "string \<Rightarrow> redis_entry option"

definition live_entry :: "redis_db \<Rightarrow> real \<Rightarrow> string \<Rightarrow> redis_entry option" where
  "live_entry db now key =
     (case db key of
        None \<Rightarrow> None
      | Some e \<Rightarrow>
          (case r_expire_at e of
             None \<Rightarrow> Some e
           | Some t \<Rightarrow> if now < t then Some e else None))"

definition redis_incr :: "real \<Rightarrow> string \<Rightarrow> redis_db \<Rightarrow> failure + int \<times> redis_db" where
  "redis_incr now key db =
     (case live_entry db now key of
        None \<Rightarrow> Inr (1, db(key \<mapsto> \<lparr>r_value = 1, r_expire_at = None\<rparr>))
      | Some e \<Rightarrow>
          (if r_value e < 2 ^ 63 - 1
           then Inr (r_value e + 1, db(key \<mapsto> e\<lparr>r_value := r_value e + 1\<rparr>))
           else Inl (Raised RedisResponseError)))"

definition redis_expire :: "real \<Rightarrow> string \<Rightarrow> real \<Rightarrow> redis_db \<Rightarrow> redis_db" where
  "redis_expire now key seconds db =
     (case live_entry db now key of
        None \<Rightarrow> db
      | Some e \<Rightarrow> db(key \<mapsto> e\<lparr>r_expire_at := Some (now + seconds)\<rparr>))"

text \<open>
  A client is connected to a server that answers, or to one that is unreachable, in
  which case every command raises a connection error. \<^verbatim>\<open>app.state.redis\<close> is a
  client, or \<^verbatim>\<open>None\<close>, or the attribute was never set.
\<close>

datatype redis_server = Down | Up redis_db

datatype app_redis = AttrMissing | AttrNone | Client redis_server

text \<open>
  \<^verbatim>\<open>
  redis_url = os.environ.get('REDIS_URL')
  if redis_url:
      try:
          app.state.redis = await aioredis.from_url(redis_url)
      except Exception:
          app.state.redis = None
  \<close>
\<close>

definition startup_event :: "environ \<Rightarrow> failure + redis_server \<Rightarrow> app_redis" where
  "startup_event env from_url =
     (if unset (env ''REDIS_URL'') then AttrMissing
      else (case from_url of Inl e \<Rightarrow> AttrNone | Inr c \<Rightarrow> Client c))"

subsection \<open>What a request leaves behind\<close>

text \<open>
  The calls a handler makes to its collaborators, in the order it makes them: the Tenant
  Store lookup, the registry lookup, the retrieval query, the two counter store
  commands, and the provider's send (or the opening of its stream).
\<close>

datatype event =
    VerifyApiKey string
  | GetProvider string
  | RagQuery json nat
  | RedisIncr string
  | RedisExpire string nat
  | SendMessages "json list"
  | StreamingResponse "json list"

subsection \<open>get\_tenant\_from\_header\<close>

text \<open>
  \<^verbatim>\<open>authorization.split()\<close>: the header value is Latin-1 text, and these are its
  characters that \<^verbatim>\<open>str.split\<close> takes as white space.
\<close>

definition is_space :: "char \<Rightarrow> bool" where
  "is_space c =
     (of_char c \<in> set [9, 10, 11, 12, 13, 28, 29, 30, 31, 32, 133, 160 :: nat])"

fun split_acc :: "string \<Rightarrow> string \<Rightarrow> string list" where
  "split_acc cur [] = (if cur = [] then [] else [cur])"
| "split_acc cur (c # cs) =
     (if is_space c
      then (if cur = [] then split_acc [] cs else cur # split_acc [] cs)
      else split_acc (cur @ [c]) cs)"

definition py_split :: "string \<Rightarrow> string list" where
  "py_split s = split_acc [] s"

text \<open>
  \<^verbatim>\<open>
  if not authorization:
      raise HTTPException(status_code=401, detail='Missing Authorization header')
  parts = authorization.split()
  if len(parts) != 2 or parts[0].lower() != 'bearer':
      raise HTTPException(status_code=401, detail='Invalid Authorization header')
  api_key = parts[1]
  tid = verify_api_key(api_key)
  if not tid:
      raise HTTPException(status_code=403, detail='Invalid API key')
  return tid
  \<close>
  The Tenant Store is the parameter \<open>verify_api_key\<close>.
\<close>

definition get_tenant_from_header ::
  "(string \<Rightarrow> string option) \<Rightarrow> string option \<Rightarrow> (failure + string) \<times> event list" where
  "get_tenant_from_header verify_api_key authorization =
     (case authorization of
        None \<Rightarrow> (Inl (HTTPException 401 ''Missing Authorization header''), [])
      | Some a \<Rightarrow>
          (if a = [] then (Inl (HTTPException 401 ''Missing Authorization header''), [])
           else (case py_split a of
                   [scheme, key] \<Rightarrow>
                     (if lower scheme \<noteq> ''bearer''
                      then (Inl (HTTPException 401 ''Invalid Authorization header''), [])
                      else (case verify_api_key key of
                              None \<Rightarrow> (Inl (HTTPException 403 ''Invalid API key''), [VerifyApiKey key])
                            | Some tid \<Rightarrow>
                                (if tid = []
                                 then (Inl (HTTPException 403 ''Invalid API key''), [VerifyApiKey key])
                                 else (Inr tid, [VerifyApiKey key]))))
                 | _ \<Rightarrow> (Inl (HTTPException 401 ''Invalid Authorization header''), []))))"

subsection \<open>Retrieval and the system message\<close>

text \<open>
  \<^verbatim>\<open>
  last_user = None
  for m in reversed(req.messages):
      if isinstance(m, dict) and m.get('role') == 'user':
          last_user = m.get('content')
          break
  \<close>
\<close>

fun scan_user :: "json list \<Rightarrow> json" where
  "scan_user [] = JNull"
| "scan_user (m # ms) =
     (if is_dict m \<and> dict_get m ''role'' = JStr ''user'' then dict_get m ''content''
      else scan_user ms)"

definition last_user :: "json list \<Rightarrow> json" where
  "last_user messages = scan_user (rev messages)"

definition system_msg :: "hit list \<Rightarrow> json" where
  "system_msg docs =
     JObj [(''role'', JStr ''system''),
           (''content'',
            JStr (''Relevant documents:'' @ [newline] @
                  str_join [newline, newline] (map document docs)))]"

text \<open>
  Lines 93 to 111 of \<^verbatim>\<open>chat\<close>, and the same text at lines 171 to 186 of
  \<^verbatim>\<open>chat_stream\<close>:
  \<^verbatim>\<open>
  messages_to_send = list(req.messages)
  if rag_enabled:
      (the loop above)
      if last_user:
          try:
              docs = rag_query(last_user, k=3)
              if docs:
                  retrieved_texts = "\n\n".join([d.get('document','') for d in docs])
                  system_msg = {"role": "system",
                                "content": f"Relevant documents:\n{retrieved_texts}"}
                  messages_to_send.insert(0, system_msg)
          except Exception:
              pass
  \<close>
  \<^verbatim>\<open>rag_enabled\<close> is \<^verbatim>\<open>req.rag\<close>, a field every request has.
\<close>

definition messages_to_send :: "rag_store \<Rightarrow> bool \<Rightarrow> json list \<Rightarrow> json list \<times> event list" where
  "messages_to_send st rag_enabled messages =
     (if rag_enabled
      then (if truthy (last_user messages)
            then (case rag_query st (last_user messages) 3 of
                    Inl e \<Rightarrow> (messages, [RagQuery (last_user messages) 3])
                  | Inr docs \<Rightarrow>
                      (if docs \<noteq> [] then system_msg docs # messages else messages,
                       [RagQuery (last_user messages) 3]))
            else (messages, []))
      else (messages, []))"

subsection \<open>The quota check\<close>

text \<open>
  \<^verbatim>\<open>int(os.environ.get('MAX_REQS_PER_MIN', '600'))\<close>: the variable is unset, or its
  text denotes an integer, or \<^verbatim>\<open>int\<close> raises ValueError on it.
\<close>

datatype env_int = EnvUnset | EnvInt int | EnvMalformed

definition max_per_min :: "env_int \<Rightarrow> failure + int" where
  "max_per_min v =
     (case v of
        EnvUnset \<Rightarrow> Inr 600
      | EnvInt n \<Rightarrow> Inr n
      | EnvMalformed \<Rightarrow> Inl (Raised ValueError))"

text \<open>\<^verbatim>\<open>f"quota:{tenant_id}:{int(time.time()//60)}"\<close>\<close>

definition quota_key :: "string \<Rightarrow> real \<Rightarrow> string" where
  "quota_key tenant_id now = ''quota:'' @ tenant_id @ '':'' @ str_int \<lfloor>now / 60\<rfloor>"

text \<open>
  Lines 115 to 126 of \<^verbatim>\<open>chat\<close>, and the same text at lines 189 to 200 of
  \<^verbatim>\<open>chat_stream\<close>:
  \<^verbatim>\<open>
  try:
      redis = request.app.state.redis
      key = f"quota:{tenant_id}:{int(time.time()//60)}"
      cur = await redis.incr(key)
      if cur == 1:
          await redis.expire(key, 61)
      max_per_min = int(os.environ.get('MAX_REQS_PER_MIN', '600'))
      if cur > max_per_min:
          raise HTTPException(status_code=429, detail='Rate limit exceeded')
  except AttributeError:
      # redis not configured - allow
      pass
  \<close>
  The result is the exception that leaves the block, if any, with the counter store and
  the commands issued. A missing attribute and a \<^verbatim>\<open>None\<close> client raise
  AttributeError, which the block catches; nothing else is caught, so an error of a
  command leaves the block as it is.
\<close>

definition quota_check ::
  "env_int \<Rightarrow> string \<Rightarrow> real \<Rightarrow> app_redis \<Rightarrow> failure option \<times> app_redis \<times> event list" where
  "quota_check max_env tenant_id now redis =
     (case redis of
        AttrMissing \<Rightarrow> (None, redis, [])
      | AttrNone \<Rightarrow> (None, redis, [])
      | Client Down \<Rightarrow>
          (Some (Raised RedisConnectionError), redis, [RedisIncr (quota_key tenant_id now)])
      | Client (Up db) \<Rightarrow>
          (let key = quota_key tenant_id now
           in (case redis_incr now key db of
                 Inl e \<Rightarrow> (Some e, redis, [RedisIncr key])
               | Inr (cur, db1) \<Rightarrow>
                   (let (db2, evs) =
                          (if cur = 1
                           then (redis_expire now key 61 db1, [RedisIncr key, RedisExpire key 61])
                           else (db1, [RedisIncr key]))
                    in (case max_per_min max_env of
                          Inl e \<Rightarrow> (Some e, Client (Up db2), evs)
                        | Inr m \<Rightarrow>
                            (if cur > m then Some (HTTPException 429 ''Rate limit exceeded'')
                             else None,
                             Client (Up db2), evs))))))"

subsection \<open>The two chat endpoints\<close>

record chat_request =
  req_messages :: "json list"
  req_provider :: string
  req_stream :: bool
  req_rag :: bool

text \<open>
  What the handlers find around them: the Tenant Store, the providers' surroundings
  with the process environment, the retrieval store, and \<^verbatim>\<open>MAX_REQS_PER_MIN\<close>. The
  clock \<^verbatim>\<open>time.time()\<close> and \<^verbatim>\<open>app.state.redis\<close> are arguments of their own.
\<close>

record app =
  app_verify_api_key :: "string \<Rightarrow> string option"
  app_cloud :: cloud
  app_rag_store :: rag_store
  app_max_reqs :: env_int

text \<open>
  \<^verbatim>\<open>chat(req, tenant_id, request)\<close>, lines 82 to 129: the provider is resolved first,
  then the messages are assembled (with the retrieval query), then the quota is checked,
  then the provider is called.
\<close>

definition chat ::
  "app \<Rightarrow> real \<Rightarrow> app_redis \<Rightarrow> string \<Rightarrow> chat_request \<Rightarrow>
     (failure + json) \<times> app_redis \<times> event list" where
  "chat a now redis tenant_id req =
     (case get_provider (environ (app_cloud a)) (req_provider req) of
        None \<Rightarrow>
          (Inl (HTTPException 400 ''Unknown provider''), redis, [GetProvider (req_provider req)])
      | Some provider \<Rightarrow>
          (let (msgs, ev_rag) = messages_to_send (app_rag_store a) (req_rag req) (req_messages req);
               (rejected, redis1, ev_quota) = quota_check (app_max_reqs a) tenant_id now redis;
               evs = [GetProvider (req_provider req)] @ ev_rag @ ev_quota
           in (case rejected of
                 Some e \<Rightarrow> (Inl e, redis1, evs)
               | None \<Rightarrow>
                   (case send_messages (app_cloud a) provider msgs of
                      Inl e \<Rightarrow> (Inl e, redis1, evs @ [SendMessages msgs])
                    | Inr reply \<Rightarrow>
                        (Inr (JObj [(''reply'', reply)]), redis1, evs @ [SendMessages msgs])))))"

text \<open>
  \<^verbatim>\<open>chat_stream\<close>, lines 161 to 216, has the same first three steps and then returns
  the response object around the generator \<^verbatim>\<open>event_stream()\<close>, which has not run yet:
  it is given by the provider and the messages the generator will use.
\<close>

record streaming_response =
  sr_provider :: provider
  sr_messages :: "json list"

definition chat_stream ::
  "app \<Rightarrow> real \<Rightarrow> app_redis \<Rightarrow> string \<Rightarrow> chat_request \<Rightarrow>
     (failure + streaming_response) \<times> app_redis \<times> event list" where
  "chat_stream a now redis tenant_id req =
     (case get_provider (environ (app_cloud a)) (req_provider req) of
        None \<Rightarrow>
          (Inl (HTTPException 400 ''Unknown provider''), redis, [GetProvider (req_provider req)])
      | Some provider \<Rightarrow>
          (let (msgs, ev_rag) = messages_to_send (app_rag_store a) (req_rag req) (req_messages req);
               (rejected, redis1, ev_quota) = quota_check (app_max_reqs a) tenant_id now redis;
               evs = [GetProvider (req_provider req)] @ ev_rag @ ev_quota
           in (case rejected of
                 Some e \<Rightarrow> (Inl e, redis1, evs)
               | None \<Rightarrow>
                   (Inr \<lparr>sr_provider = provider, sr_messages = msgs\<rparr>, redis1,
                    evs @ [StreamingResponse msgs]))))"

text \<open>
  The generator of the response: it relays the chunks of the provider's stream, and when
  that stream raises it yields one diagnostic chunk and ends.
  \<^verbatim>\<open>
  try:
      agen = provider.send_messages_stream(messages_to_send)
      async for chunk in agen:
          ...
          yield chunk
  except Exception as e:
      err = f"(stream-error) {e}".encode('utf-8')
      yield err
  \<close>
\<close>

definition event_stream :: "cloud \<Rightarrow> string generator \<Rightarrow> string list" where
  "event_stream w agen =
     (case agen of
        (chunks, None) \<Rightarrow> chunks
      | (chunks, Some e) \<Rightarrow> chunks @ [''(stream-error) '' @ exn_str w e])"

text \<open>
  FastAPI resolves the dependency \<^verbatim>\<open>Depends(get_tenant_from_header)\<close> before it calls
  the handler, and answers with the dependency's exception when it raises one.
\<close>

definition post_chat ::
  "app \<Rightarrow> real \<Rightarrow> app_redis \<Rightarrow> string option \<Rightarrow> chat_request \<Rightarrow>
     (failure + json) \<times> app_redis \<times> event list" where
  "post_chat a now redis authorization req =
     (case get_tenant_from_header (app_verify_api_key a) authorization of
        (Inl e, evs) \<Rightarrow> (Inl e, redis, evs)
      | (Inr tenant_id, evs) \<Rightarrow>
          (case chat a now redis tenant_id req of
             (res, redis1, evs1) \<Rightarrow> (res, redis1, evs @ evs1)))"

definition post_chat_stream ::
  "app \<Rightarrow> real \<Rightarrow> app_redis \<Rightarrow> string option \<Rightarrow> chat_request \<Rightarrow>
     (failure + streaming_response) \<times> app_redis \<times> event list" where
  "post_chat_stream a now redis authorization req =
     (case get_tenant_from_header (app_verify_api_key a) authorization of
        (Inl e, evs) \<Rightarrow> (Inl e, redis, evs)
      | (Inr tenant_id, evs) \<Rightarrow>
          (case chat_stream a now redis tenant_id req of
             (res, redis1, evs1) \<Rightarrow> (res, redis1, evs @ evs1)))"

section \<open>The reference definition of context assembly\<close>

text \<open>
  Written from the specification, to be compared with \<open>messages_to_send\<close>. The
  conversation contains a user-role message; retrieval is the query of the Retrieval
  Store with the content of the last user-role message, top-k 3, a failure counting as
  zero documents; with retrieval enabled, a user-role message and at least one document,
  one system message ("Relevant documents:", a newline, the document texts joined by a
  double newline) goes in front of the unchanged sequence; otherwise the sequence passes
  through.
\<close>

definition has_user_role :: "json \<Rightarrow> bool" where
  "has_user_role m = (case m of JObj d \<Rightarrow> map_of d ''role'' = Some (JStr ''user'') | _ \<Rightarrow> False)"

definition spec_last_user_content :: "json list \<Rightarrow> json" where
  "spec_last_user_content messages = dict_get (last (filter has_user_role messages)) ''content''"

definition spec_retrieved :: "rag_store \<Rightarrow> json list \<Rightarrow> hit list" where
  "spec_retrieved st messages =
     (if list_ex has_user_role messages
      then (case rag_query st (spec_last_user_content messages) 3 of
              Inl e \<Rightarrow> []
            | Inr docs \<Rightarrow> docs)
      else [])"

definition spec_assemble :: "bool \<Rightarrow> json list \<Rightarrow> hit list \<Rightarrow> json list" where
  "spec_assemble rag_enabled messages retrieved =
     (if rag_enabled \<and> list_ex has_user_role messages \<and> retrieved \<noteq> []
      then JObj [(''role'', JStr ''system''),
                 (''content'',
                  JStr (''Relevant documents:'' @ [newline] @
                        str_join [newline, newline] (map document retrieved)))] # messages
      else messages)"

section \<open>The order of the orchestration steps\<close>

text \<open>
  The step an event belongs to, in the order the handlers are written: authentication,
  provider resolution, retrieval, quota check, provider call.
\<close>

fun code_phase :: "event \<Rightarrow> nat" where
  "code_phase (VerifyApiKey k) = 0"
| "code_phase (GetProvider n) = 1"
| "code_phase (RagQuery q k) = 2"
| "code_phase (RedisIncr k) = 3"
| "code_phase (RedisExpire k s) = 3"
| "code_phase (SendMessages ms) = 4"
| "code_phase (StreamingResponse ms) = 4"

text \<open>
  The same in the order the specification gives (written from its words, to state its
  claim): authentication, quota check, retrieval, then dispatch, which is the provider
  resolution followed by the provider call.
\<close>

fun spec_phase :: "event \<Rightarrow> nat" where
  "spec_phase (VerifyApiKey k) = 0"
| "spec_phase (RedisIncr k) = 1"
| "spec_phase (RedisExpire k s) = 1"
| "spec_phase (RagQuery q k) = 2"
| "spec_phase (GetProvider n) = 3"
| "spec_phase (SendMessages ms) = 4"
| "spec_phase (StreamingResponse ms) = 4"

section \<open>Successive requests of one tenant\<close>

text \<open>
  The handler \<open>chat\<close> run once for each of the given clock readings, in order, on the
  counter store the request before left behind: the results, and the final store.
\<close>

fun chat_run ::
  "app \<Rightarrow> string \<Rightarrow> chat_request \<Rightarrow> app_redis \<Rightarrow> real list \<Rightarrow> (failure + json) list \<times> app_redis" where
  "chat_run a tenant_id req redis [] = ([], redis)"
| "chat_run a tenant_id req redis (now # nows) =
     (case chat a now redis tenant_id req of
        (res, redis1, evs) \<Rightarrow>
          (case chat_run a tenant_id req redis1 nows of
             (rs, redis2) \<Rightarrow> (res # rs, redis2)))"

section \<open>Indexing: rag\_indexer.index\_texts, vector\_store.py and worker.py\<close>

text \<open>\<^verbatim>\<open>[f"doc_{i}" for i in range(len(texts))]\<close>\<close>

definition default_ids :: "string list \<Rightarrow> string list" where
  "default_ids texts = map (\<lambda>i. ''doc_'' @ str_int (int i)) [0..<length texts]"

text \<open>
  \<^verbatim>\<open>
  def index_texts(texts, ids=None, metadatas=None):
      _init()
      (get the collection, or create it)
      embeddings = _embedder.encode(texts, show_progress_bar=False)
      if ids is None:
          ids = [f"doc_{i}" for i in range(len(texts))]
      collection.add(ids=ids, documents=texts,
                     metadatas=metadatas or [{} for _ in texts], embeddings=...)
      return {'added': len(texts)}
  \<close>
  Chroma's \<^verbatim>\<open>add\<close> takes lists of one length, and raises ValueError otherwise.
\<close>

definition index_texts ::
  "rag_store \<Rightarrow> string list \<Rightarrow> string list option \<Rightarrow> metadata list option \<Rightarrow>
     (failure + (string \<times> json) list) \<times> rag_store" where
  "index_texts st texts ids metadatas =
     (if \<not> chromadb_imported st then (Inl (Raised RuntimeError), st)
      else (let entries = (case collection st of None \<Rightarrow> [] | Some es \<Rightarrow> es);
                ids1 = (case ids of None \<Rightarrow> default_ids texts | Some is \<Rightarrow> is);
                metas = (case metadatas of
                           None \<Rightarrow> map (\<lambda>t. []) texts
                         | Some ms \<Rightarrow> if ms = [] then map (\<lambda>t. []) texts else ms)
            in if length ids1 = length texts \<and> length metas = length texts
               then (Inr [(''added'', JNum (int (length texts)))],
                     st\<lparr>collection :=
                          Some (entries @
                                map (\<lambda>(i, t, m).
                                       \<lparr>entry_id = i, entry_document = t, entry_metadata = m\<rparr>)
                                  (zip3 ids1 texts metas))\<rparr>)
               else (Inl (Raised ValueError), st\<lparr>collection := Some entries\<rparr>)))"

text \<open>
  The module \<^verbatim>\<open>vector_store\<close> decides once, when it is loaded, which backend it uses:
  Pinecone when both \<^verbatim>\<open>PINECONE_API_KEY\<close> and \<^verbatim>\<open>PINECONE_ENV\<close> are set and the
  client initialises, otherwise Chroma when that can be imported. Pinecone and the
  embedding model are outside the repository: an index maps an identifier to its vector
  and metadata, \<^verbatim>\<open>upsert\<close> writes each triple under its identifier, and the calls are
  taken to succeed.
\<close>

type_synonym vector = "real list"

type_synonym pinecone_index = "string \<Rightarrow> (vector \<times> metadata) option"

type_synonym pinecone = "string \<Rightarrow> pinecone_index option"

record vector_module =
  use_pinecone :: bool
  chroma_client :: bool
  collection_name :: string
  encode :: "string \<Rightarrow> vector"

definition load_vector_store ::
  "environ \<Rightarrow> bool \<Rightarrow> bool \<Rightarrow> (string \<Rightarrow> vector) \<Rightarrow> vector_module" where
  "load_vector_store env pinecone_ok chroma_ok enc =
     (let up = (\<not> unset (env ''PINECONE_API_KEY'') \<and> \<not> unset (env ''PINECONE_ENV'') \<and> pinecone_ok)
      in \<lparr>use_pinecone = up,
          chroma_client = (\<not> up \<and> chroma_ok),
          collection_name =
            (case env ''VECTOR_COLLECTION'' of None \<Rightarrow> ''gqx_collection'' | Some n \<Rightarrow> n),
          encode = enc\<rparr>)"

definition tenant_json :: "string option \<Rightarrow> json" where
  "tenant_json tenant_id = (case tenant_id of None \<Rightarrow> JNull | Some t \<Rightarrow> JStr t)"

definition pinecone_upsert ::
  "(string \<times> vector \<times> metadata) list \<Rightarrow> pinecone_index \<Rightarrow> pinecone_index" where
  "pinecone_upsert to_upsert idx = fold (\<lambda>(i, v, m) ix. ix(i \<mapsto> (v, m))) to_upsert idx"

text \<open>
  \<^verbatim>\<open>
  def upsert_documents(texts, ids=None, tenant_id=None):
      if ids is None:
          ids = [f"doc_{i}" for i in range(len(texts))]
      metadatas = [{"tenant_id": tenant_id} for _ in texts]
      if _use_pinecone:
          idx_name = COLLECTION_NAME
          if idx_name not in pinecone.list_indexes():
              pinecone.create_index(idx_name, dimension=384)
          idx = pinecone.Index(idx_name)
          ...
          vectors = embedder.encode(texts).tolist()
          to_upsert = [(ids[i], vectors[i], metadatas[i]) for i in range(len(ids))]
      idx.upsert(to_upsert)
      return {"upserted": len(ids), "provider": "pinecone"}

      # fallback to chroma
      ...
  \<close>
  The last two statements before the comment are outside the \<^verbatim>\<open>if\<close>: they run
  whether Pinecone is used or not, and the Chroma code after the \<^verbatim>\<open>return\<close> is never
  reached. Without Pinecone the local \<^verbatim>\<open>idx\<close> was never assigned, so
  \<^verbatim>\<open>idx.upsert\<close> raises UnboundLocalError. With more identifiers than texts,
  \<^verbatim>\<open>vectors[i]\<close> raises IndexError.
\<close>

definition upsert_documents ::
  "vector_module \<Rightarrow> pinecone \<Rightarrow> string list \<Rightarrow> string list option \<Rightarrow> string option \<Rightarrow>
     (failure + (string \<times> json) list) \<times> pinecone" where
  "upsert_documents vm pc texts ids tenant_id =
     (let ids1 = (case ids of None \<Rightarrow> default_ids texts | Some is \<Rightarrow> is);
          metadatas = map (\<lambda>t. [(''tenant_id'', tenant_json tenant_id)]) texts
      in if use_pinecone vm
         then (let idx = (case pc (collection_name vm) of None \<Rightarrow> Map.empty | Some ix \<Rightarrow> ix);
                   pc1 = pc(collection_name vm \<mapsto> idx);
                   vectors = map (encode vm) texts
               in if length texts < length ids1 then (Inl (Raised IndexError), pc1)
                  else (Inr [(''upserted'', JNum (int (length ids1))),
                             (''provider'', JStr ''pinecone'')],
                        pc1(collection_name vm \<mapsto>
                              pinecone_upsert (zip3 ids1 vectors metadatas) idx)))
         else (Inl (Raised UnboundLocalError), pc))"

text \<open>
  \<^verbatim>\<open>
  def enqueue_documents(texts, ids=None, tenant_id=None):
      REDIS_URL = os.environ.get('REDIS_URL')
      task = {'texts': texts, 'ids': ids or [f"doc_{i}" for i in range(len(texts))],
              'tenant_id': tenant_id}
      if not REDIS_URL:
          return upsert_documents(texts, ids=ids, tenant_id=tenant_id)
      ...
      try:
          asyncio.create_task(_push())
          return {'enqueued': len(task['ids'])}
      except Exception:
          return upsert_documents(texts, ids=ids, tenant_id=tenant_id)
  \<close>
  \<^verbatim>\<open>asyncio.create_task\<close> raises RuntimeError when no event loop is running. The
  pushes it has scheduled are the third component of the state: \<^verbatim>\<open>_push\<close> appends
  the task to the list \<^verbatim>\<open>index_queue\<close> once the loop runs it.
\<close>

record index_task =
  task_texts :: "string list"
  task_ids :: "string list"
  task_tenant_id :: "string option"

definition enqueue_documents ::
  "vector_module \<Rightarrow> environ \<Rightarrow> bool \<Rightarrow> pinecone \<Rightarrow> index_task list \<Rightarrow>
   string list \<Rightarrow> string list option \<Rightarrow> string option \<Rightarrow>
     (failure + (string \<times> json) list) \<times> pinecone \<times> index_task list" where
  "enqueue_documents vm env loop_running pc scheduled texts ids tenant_id =
     (let task = \<lparr>task_texts = texts,
                  task_ids = (case ids of
                                None \<Rightarrow> default_ids texts
                              | Some is \<Rightarrow> if is = [] then default_ids texts else is),
                  task_tenant_id = tenant_id\<rparr>
      in if unset (env ''REDIS_URL'')
         then (case upsert_documents vm pc texts ids tenant_id of
                 (res, pc1) \<Rightarrow> (res, pc1, scheduled))
         else if loop_running
         then (Inr [(''enqueued'', JNum (int (length (task_ids task))))], pc, scheduled @ [task])
         else (case upsert_documents vm pc texts ids tenant_id of
                 (res, pc1) \<Rightarrow> (res, pc1, scheduled)))"

text \<open>
  What happens to a scheduled push afterwards. When the event loop runs \<^verbatim>\<open>_push\<close>, it
  appends the serialised task to the list \<^verbatim>\<open>index_queue\<close>
  (\<^verbatim>\<open>r.rpush('index_queue', json.dumps(task))\<close>); a task is two lists of strings and
  an optional string, which \<^verbatim>\<open>json.loads\<close> gives back as they were.
\<close>

fun run_push :: "index_task list \<Rightarrow> index_task list \<Rightarrow> index_task list \<times> index_task list" where
  "run_push [] queue = ([], queue)"
| "run_push (task # scheduled) queue = (scheduled, queue @ [task])"

text \<open>
  One round of the loop of \<^verbatim>\<open>run_worker\<close> in \<^verbatim>\<open>worker.py\<close>:
  \<^verbatim>\<open>
  try:
      item = await redis.blpop('index_queue', timeout=5)
      if not item:
          await asyncio.sleep(0.1)
          continue
      _, raw = item
      task = json.loads(raw)
      texts = task.get('texts')
      ids = task.get('ids')
      tenant_id = task.get('tenant_id')
      ...
      upsert_documents(texts, ids=ids, tenant_id=tenant_id)
  except Exception as e:
      logger.exception('Worker error: %s', e)
      await asyncio.sleep(1)
  \<close>
  It takes the first task of the queue, if there is one, and upserts it; an exception of
  the upsert is logged and the loop goes on.
\<close>

fun worker_round :: "vector_module \<Rightarrow> pinecone \<Rightarrow> index_task list \<Rightarrow> pinecone \<times> index_task list" where
  "worker_round vm pc [] = (pc, [])"
| "worker_round vm pc (task # queue) =
     (snd (upsert_documents vm pc (task_texts task) (Some (task_ids task)) (task_tenant_id task)),
      queue)"

text \<open>
  \<^verbatim>\<open>vector_store.query(text, k, tenant_id)\<close>, the tenant-aware query of the module. It
  drops every match whose metadata names another tenant:
  \<^verbatim>\<open>
  if _use_pinecone:
      idx_name = COLLECTION_NAME
      if idx_name not in pinecone.list_indexes():
          return []
      ...
      res = idx.query(queries=[qv], top_k=k, include_metadata=True, include_values=False)
      out = []
      for match in res['results'][0]['matches']:
          md = match.get('metadata', {})
          if tenant_id and md.get('tenant_id') != tenant_id:
              continue
          out.append({'id': match['id'], 'document': md.get('text') or '',
                      'metadata': md, 'score': match.get('score')})
      return out
  if _chroma_client is None or _embedder is None:
      return []
  q_embed = _embedder.encode([text])
  results = _chroma_client.get_collection(COLLECTION_NAME).query(...)
  out = []
  ...
  for docs_row, metas_row, dists_row in zip(docs, metas, dists):
      for doc, meta, dist in zip(docs_row, metas_row, dists_row):
          if tenant_id and meta.get('tenant_id') != tenant_id:
              continue
          out.append({'document': doc, 'metadata': meta, 'distance': dist})
  return out
  \<close>
  Pinecone's nearest-neighbour search is the parameter \<open>pinecone_search\<close>, giving the
  identifier, score and metadata of each match; the module's own Chroma collection is
  given as a retrieval store. \<^verbatim>\<open>get_collection\<close> is not guarded here: without a
  collection it raises ValueError.
\<close>

datatype store_hit =
    PineconeHit string json metadata real
  | ChromaHit string metadata real

definition other_tenant :: "string option \<Rightarrow> metadata \<Rightarrow> bool" where
  "other_tenant tenant_id md =
     (\<not> unset tenant_id \<and> dict_get (JObj md) ''tenant_id'' \<noteq> tenant_json tenant_id)"

definition vector_store_query ::
  "vector_module \<Rightarrow> pinecone \<Rightarrow> (pinecone_index \<Rightarrow> vector \<Rightarrow> nat \<Rightarrow> (string \<times> real \<times> metadata) list) \<Rightarrow>
   rag_store \<Rightarrow> string \<Rightarrow> nat \<Rightarrow> string option \<Rightarrow> failure + store_hit list" where
  "vector_store_query vm pc pinecone_search chroma text k tenant_id =
     (if use_pinecone vm
      then (case pc (collection_name vm) of
              None \<Rightarrow> Inr []
            | Some idx \<Rightarrow>
                Inr (map (\<lambda>(i, score, md).
                            PineconeHit i (py_or (dict_get (JObj md) ''text'') (JStr [])) md score)
                       (filter (\<lambda>(i, score, md). \<not> other_tenant tenant_id md)
                          (pinecone_search idx (encode vm text) k))))
      else if \<not> chroma_client vm then Inr []
      else (case collection chroma of
              None \<Rightarrow> Inl (Raised ValueError)
            | Some entries \<Rightarrow>
                (case collection_query chroma entries (JStr text) k of
                   Inl e \<Rightarrow> Inl e
                 | Inr results \<Rightarrow>
                     Inr (concat
                            (map (\<lambda>(docs, metas, dists).
                                    map (\<lambda>(doc, meta, dist). ChromaHit doc meta dist)
                                      (filter (\<lambda>(doc, meta, dist). \<not> other_tenant tenant_id meta)
                                         (zip3 docs metas dists)))
                               (zip3 (res_documents results) (res_metadatas results)
                                  (res_distances results)))))))"

fun hit_metadata :: "store_hit \<Rightarrow> metadata" where
  "hit_metadata (PineconeHit i d md s) = md"
| "hit_metadata (ChromaHit d md s) = md"

section \<open>Example configurations\<close>

text \<open>Concrete inputs, used where a statement is evaluated.\<close>

definition user_msg :: "string \<Rightarrow> json" where
  "user_msg s = JObj [(''role'', JStr ''user''), (''content'', JStr s)]"

definition demo_cloud :: cloud where
  "demo_cloud =
     \<lparr>google_imported = True, adc = Inr ''tok'',
      post = (\<lambda>rq. Inr \<lparr>status_code = 200, text_body = ''hello'', json_body = None\<rparr>),
      py_str = (\<lambda>v. ''?''), exn_str = (\<lambda>e. ''boom''), environ = (\<lambda>k. None)\<rparr>"

text \<open>
  A collection query that answers every text with the first \<open>k\<close> entries, at distance
  0, and a retrieval store around it.
\<close>

definition first_k_query :: "chroma_entry list \<Rightarrow> json \<Rightarrow> nat \<Rightarrow> failure + query_result" where
  "first_k_query entries q k =
     Inr \<lparr>res_documents = [map entry_document (take k entries)],
          res_metadatas = [map entry_metadata (take k entries)],
          res_distances = [map (\<lambda>e. 0) (take k entries)]\<rparr>"

definition demo_store :: "chroma_entry list \<Rightarrow> rag_store" where
  "demo_store entries =
     \<lparr>chromadb_imported = True, collection = Some entries, collection_query = first_k_query\<rparr>"

definition doc_x :: chroma_entry where
  "doc_x = \<lparr>entry_id = ''d1'', entry_document = ''X is a thing.'', entry_metadata = []\<rparr>"

text \<open>
  An application whose Tenant Store resolves the credential \<^verbatim>\<open>abc123\<close> to the tenant
  \<^verbatim>\<open>t1\<close>, with the default ceiling, and a chat request for the Olama backend.
\<close>

definition demo_app :: app where
  "demo_app =
     \<lparr>app_verify_api_key = (\<lambda>k. if k = ''abc123'' then Some ''t1'' else None),
      app_cloud = demo_cloud,
      app_rag_store = demo_store [doc_x],
      app_max_reqs = EnvUnset\<rparr>"

definition demo_request :: chat_request where
  "demo_request =
     \<lparr>req_messages = [user_msg ''What is X?''], req_provider = ''olama'',
      req_stream = False, req_rag = True\<rparr>"

text \<open>
  A loaded \<^verbatim>\<open>vector_store\<close> module, with Pinecone or with Chroma; an environment that
  names a queue; and a collection entry indexed for another tenant.
\<close>

definition demo_vectors :: "bool \<Rightarrow> vector_module" where
  "demo_vectors with_pinecone =
     \<lparr>use_pinecone = with_pinecone, chroma_client = (\<not> with_pinecone),
      collection_name = ''gqx_collection'', encode = (\<lambda>t. [real (length t)])\<rparr>"

definition queue_environ :: environ where
  "queue_environ = (\<lambda>k. if k = ''REDIS_URL'' then Some ''redis://cache:6379'' else None)"

definition empty_store :: rag_store where
  "empty_store =
     \<lparr>chromadb_imported = True, collection = None, collection_query = first_k_query\<rparr>"

definition doc_t2 :: chroma_entry where
  "doc_t2 =
     \<lparr>entry_id = ''d1'', entry_document = ''T2 internal memo'',
      entry_metadata = [(''tenant_id'', JStr ''t2'')]\<rparr>"

section \<open>Streaming fallback\<close>

lemma ceil_div_step: "Suc ((m + 63) div 64) = (m + 64 + 63) div (64::nat)"
proof -
  have "(m + 64 + 63) div (64::nat) = ((m + 63) + 64) div 64" by (simp add: ac_simps)
  also have "\<dots> = (m + 63) div 64 + 1" by (rule div_add_self2) simp
  finally show ?thesis by simp
qed

lemma stream_chunks_concat: "concat (stream_chunks i reply) = drop i reply"
proof (induction i reply rule: stream_chunks.induct)
  case (1 i reply)
  show ?case
  proof (cases "i < length reply")
    case True
    have "concat (stream_chunks i reply) =
            take chunk_size (drop i reply) @ drop (i + chunk_size) reply"
      using True "1.IH" by (subst stream_chunks.simps) simp
    also have "\<dots> = drop i reply"
      by (metis append_take_drop_id drop_drop add.commute)
    finally show ?thesis .
  next
    case False
    then show ?thesis by (subst stream_chunks.simps) simp
  qed
qed

lemma stream_chunks_sizes:
  "list_all (\<lambda>c. 0 < length c \<and> length c \<le> chunk_size) (stream_chunks i reply)"
proof (induction i reply rule: stream_chunks.induct)
  case (1 i reply)
  show ?case
  proof (cases "i < length reply")
    case True
    then show ?thesis
      using "1.IH" by (subst stream_chunks.simps) (simp add: chunk_size_def)
  next
    case False
    then show ?thesis by (subst stream_chunks.simps) simp
  qed
qed

lemma stream_chunks_full:
  "list_all (\<lambda>c. length c = chunk_size) (butlast (stream_chunks i reply))"
proof (induction i reply rule: stream_chunks.induct)
  case (1 i reply)
  show ?case
  proof (cases "i < length reply")
    case True
    note lt = this
    show ?thesis
    proof (cases "i + chunk_size < length reply")
      case True
      then have ne: "stream_chunks (i + chunk_size) reply \<noteq> []"
        by (subst stream_chunks.simps) simp
      from True have "length (take chunk_size (drop i reply)) = chunk_size"
        by simp
      then show ?thesis
        using lt ne "1.IH" by (subst stream_chunks.simps) simp
    next
      case False
      then have "stream_chunks (i + chunk_size) reply = []"
        by (subst stream_chunks.simps) simp
      then show ?thesis
        using lt by (subst stream_chunks.simps) simp
    qed
  next
    case False
    then show ?thesis by (subst stream_chunks.simps) simp
  qed
qed

lemma stream_chunks_length:
  "length (stream_chunks i reply) = (length reply - i + (chunk_size - 1)) div chunk_size"
proof (induction i reply rule: stream_chunks.induct)
  case (1 i reply)
  show ?case
  proof (cases "i < length reply")
    case True
    note lt = this
    have step: "length (stream_chunks i reply) =
        Suc ((length reply - (i + 64) + 63) div 64)"
      using True "1.IH" by (subst stream_chunks.simps) (simp add: chunk_size_def)
    show ?thesis
    proof (cases "length reply - i \<le> 64")
      case True
      then have a: "length reply - (i + 64) = 0" by simp
      from True lt have "64 \<le> length reply - i + 63" "length reply - i + 63 < 128"
        by simp_all
      then have "(length reply - i + 63) div 64 = 1"
        by (intro div_nat_eqI) simp_all
      then show ?thesis using step a by (simp add: chunk_size_def)
    next
      case False
      define m where "m = length reply - (i + 64)"
      have eq: "length reply - i = m + 64"
        using False unfolding m_def by linarith
      have "(length reply - i + 63) div 64 = (m + 64 + 63) div 64"
        by (simp only: eq)
      also have "\<dots> = Suc ((m + 63) div 64)"
        by (rule ceil_div_step [symmetric])
      finally have "(length reply - i + 63) div 64 = length (stream_chunks i reply)"
        unfolding m_def step .
      then show ?thesis by (simp add: chunk_size_def)
    qed
  next
    case False
    then show ?thesis
      by (subst stream_chunks.simps) (simp add: chunk_size_def)
  qed
qed

text \<open>
  C6. For a backend that inherits the base streaming fallback (OlamaProvider and
  OpenAIProvider do), whatever its \<^verbatim>\<open>send_messages\<close> is and whatever the messages
  are: the function is total, so the sequence is finite; when the send returns a reply,
  the generator ends without an exception, the chunks are the consecutive slices of 64
  characters of the reply (each non-empty, all but the last of exactly 64, their number
  the reply's length divided by 64 and rounded up), and their concatenation is the
  reply; when the send raises, the generator yields nothing and raises the same
  exception. So the outcome of the non-streaming send is recovered from the stream.
\<close>

theorem base_stream_is_chunked_reply:
  "(case send messages of
      Inl e \<Rightarrow> base_send_messages_stream send messages = ([], Some e)
    | Inr reply \<Rightarrow>
        snd (base_send_messages_stream send messages) = None \<and>
        concat (fst (base_send_messages_stream send messages)) = reply \<and>
        list_all (\<lambda>c. 0 < length c \<and> length c \<le> 64)
          (fst (base_send_messages_stream send messages)) \<and>
        list_all (\<lambda>c. length c = 64)
          (butlast (fst (base_send_messages_stream send messages))) \<and>
        length (fst (base_send_messages_stream send messages)) =
          (length reply + 63) div 64)"
proof (cases "send messages")
  case (Inl e)
  then show ?thesis by (simp add: base_send_messages_stream_def)
next
  case (Inr reply)
  have "concat (stream_chunks 0 reply) = reply"
    by (simp add: stream_chunks_concat)
  moreover have "list_all (\<lambda>c. 0 < length c \<and> length c \<le> 64) (stream_chunks 0 reply)"
    using stream_chunks_sizes [of 0 reply] by (simp add: chunk_size_def)
  moreover have "list_all (\<lambda>c. length c = 64) (butlast (stream_chunks 0 reply))"
    using stream_chunks_full [of 0 reply] by (simp add: chunk_size_def)
  moreover have "length (stream_chunks 0 reply) = (length reply + 63) div 64"
    using stream_chunks_length [of 0 reply] by (simp add: chunk_size_def)
  ultimately show ?thesis
    using Inr by (simp add: base_send_messages_stream_def)
qed

section \<open>Credential resolution of the Gemini backend\<close>

lemma gemini_credentials_adc:
  "google_imported w \<Longrightarrow> adc w = Inr token \<Longrightarrow>
   gemini_credentials w self =
     (Some Adc, [], [(''Content-Type'', ''application/json''), (''Authorization'', ''Bearer '' @ token)])"
  by (simp add: gemini_credentials_def)

lemma gemini_credentials_key:
  "\<not> google_imported w \<or> isl (adc w) \<Longrightarrow> api_key self = Some k \<Longrightarrow> k \<noteq> [] \<Longrightarrow>
   gemini_credentials w self =
     (Some Api_key, [(''key'', k)], [(''Content-Type'', ''application/json'')])"
  by (cases "google_imported w"; cases "adc w") (auto simp add: gemini_credentials_def)

lemma gemini_credentials_none:
  "\<not> google_imported w \<or> isl (adc w) \<Longrightarrow> unset (api_key self) \<Longrightarrow>
   gemini_credentials w self = (None, [], [(''Content-Type'', ''application/json'')])"
  by (cases "google_imported w"; cases "adc w")
     (auto simp add: gemini_credentials_def unset_def split: option.splits)

text \<open>
  C7. \<^verbatim>\<open>GeminiProvider.send_messages\<close> resolves credentials in this order. When the
  Application Default Credentials yield a token, the request carries it as a bearer
  token and no API key, whatever the configured key is. When that source is unavailable
  or raises, and an API key is configured (set and non-empty), the request carries the
  key as the \<^verbatim>\<open>key\<close> parameter and no authorization header. When neither source
  yields credentials, the send returns the placeholder text as its reply, for every
  message sequence, and raises nothing.
\<close>

theorem gemini_credential_fallback:
  "(google_imported w \<and> adc w = Inr token \<longrightarrow>
      gemini_send_messages w self messages =
        (case last_content messages of
           Inl e \<Rightarrow> Inl e
         | Inr c \<Rightarrow>
             Inr (gemini_exchange w
                    \<lparr>url = gemini_endpoint w self, prompt = c, params = [],
                     headers = [(''Content-Type'', ''application/json''),
                                (''Authorization'', ''Bearer '' @ token)]\<rparr>))) \<and>
   ((\<not> google_imported w \<or> isl (adc w)) \<and> api_key self = Some k \<and> k \<noteq> [] \<longrightarrow>
      gemini_send_messages w self messages =
        (case last_content messages of
           Inl e \<Rightarrow> Inl e
         | Inr c \<Rightarrow>
             Inr (gemini_exchange w
                    \<lparr>url = gemini_endpoint w self, prompt = c, params = [(''key'', k)],
                     headers = [(''Content-Type'', ''application/json'')]\<rparr>))) \<and>
   ((\<not> google_imported w \<or> isl (adc w)) \<and> unset (api_key self) \<longrightarrow>
      gemini_send_messages w self messages =
        Inr (JStr ''(gemini) no credentials available; set GOOGLE_APPLICATION_CREDENTIALS or GEMINI_API_KEY''))"
proof (intro conjI impI)
  assume "google_imported w \<and> adc w = Inr token"
  then show "gemini_send_messages w self messages =
        (case last_content messages of
           Inl e \<Rightarrow> Inl e
         | Inr c \<Rightarrow>
             Inr (gemini_exchange w
                    \<lparr>url = gemini_endpoint w self, prompt = c, params = [],
                     headers = [(''Content-Type'', ''application/json''),
                                (''Authorization'', ''Bearer '' @ token)]\<rparr>))"
    by (simp add: gemini_send_messages_def gemini_credentials_adc split: sum.split)
next
  assume "(\<not> google_imported w \<or> isl (adc w)) \<and> api_key self = Some k \<and> k \<noteq> []"
  then show "gemini_send_messages w self messages =
        (case last_content messages of
           Inl e \<Rightarrow> Inl e
         | Inr c \<Rightarrow>
             Inr (gemini_exchange w
                    \<lparr>url = gemini_endpoint w self, prompt = c, params = [(''key'', k)],
                     headers = [(''Content-Type'', ''application/json'')]\<rparr>))"
    by (simp add: gemini_send_messages_def gemini_credentials_key split: sum.split)
next
  assume "(\<not> google_imported w \<or> isl (adc w)) \<and> unset (api_key self)"
  then show "gemini_send_messages w self messages =
        Inr (JStr ''(gemini) no credentials available; set GOOGLE_APPLICATION_CREDENTIALS or GEMINI_API_KEY'')"
    by (simp add: gemini_send_messages_def gemini_credentials_none gemini_no_credentials_def)
qed

theorem gemini_credential_fallback_witness:
  "gemini_send_messages demo_cloud \<lparr>api_key = Some ''k1'', endpoint = None\<rparr> [user_msg ''hi''] =
     Inr (gemini_exchange demo_cloud
            \<lparr>url = default_endpoint, prompt = JStr ''hi'', params = [],
             headers = [(''Content-Type'', ''application/json''),
                        (''Authorization'', ''Bearer tok'')]\<rparr>) \<and>
   gemini_send_messages (demo_cloud\<lparr>adc := Inl (Raised RuntimeError)\<rparr>)
       \<lparr>api_key = Some ''k1'', endpoint = None\<rparr> [user_msg ''hi''] =
     Inr (gemini_exchange (demo_cloud\<lparr>adc := Inl (Raised RuntimeError)\<rparr>)
            \<lparr>url = default_endpoint, prompt = JStr ''hi'', params = [(''key'', ''k1'')],
             headers = [(''Content-Type'', ''application/json'')]\<rparr>) \<and>
   gemini_send_messages (demo_cloud\<lparr>google_imported := False\<rparr>)
       \<lparr>api_key = None, endpoint = None\<rparr> [user_msg ''hi''] =
     Inr (JStr ''(gemini) no credentials available; set GOOGLE_APPLICATION_CREDENTIALS or GEMINI_API_KEY'')"
proof -
  have lc: "last_content [user_msg ''hi''] = Inr (JStr ''hi'')"
    by (simp add: last_content_def user_msg_def)
  have ep: "gemini_endpoint c \<lparr>api_key = a, endpoint = None\<rparr> = default_endpoint"
    if "environ c = (\<lambda>k. None)" for c a
    using that by (simp add: gemini_endpoint_def str_or_def unset_def default_endpoint_def)
  have 1: "google_imported demo_cloud \<and> adc demo_cloud = Inr ''tok''"
    by (simp add: demo_cloud_def)
  have 2: "(\<not> google_imported (demo_cloud\<lparr>adc := Inl (Raised RuntimeError)\<rparr>) \<or>
             isl (adc (demo_cloud\<lparr>adc := Inl (Raised RuntimeError)\<rparr>))) \<and>
           api_key \<lparr>api_key = Some ''k1'', endpoint = None\<rparr> = Some ''k1'' \<and> ''k1'' \<noteq> []"
    by simp
  have 3: "(\<not> google_imported (demo_cloud\<lparr>google_imported := False\<rparr>) \<or>
             isl (adc (demo_cloud\<lparr>google_imported := False\<rparr>))) \<and>
           unset (api_key \<lparr>api_key = None, endpoint = None\<rparr>)"
    by (simp add: unset_def)
  show ?thesis
    using gemini_credential_fallback
            [of demo_cloud "''tok''" "\<lparr>api_key = Some ''k1'', endpoint = None\<rparr>"
                "[user_msg ''hi'']"]
          gemini_credential_fallback
            [of "demo_cloud\<lparr>adc := Inl (Raised RuntimeError)\<rparr>" _
                "\<lparr>api_key = Some ''k1'', endpoint = None\<rparr>" _ "''k1''"]
          gemini_credential_fallback
            [of "demo_cloud\<lparr>google_imported := False\<rparr>" _
                "\<lparr>api_key = None, endpoint = None\<rparr>" "[user_msg ''hi'']"]
          1 2 3
    by (simp add: lc ep demo_cloud_def)
qed

section \<open>The prompt of an empty message sequence\<close>

lemma last_content_Nil: "last_content [] = Inl (Raised IndexError)"
  by (simp add: last_content_def)

lemma last_content_nonempty: "messages \<noteq> [] \<Longrightarrow> last_content messages \<noteq> Inl (Raised IndexError)"
  by (simp add: last_content_def split: json.split option.split)

lemma str_plus_no_index: "str_plus s v \<noteq> Inl (Raised IndexError)"
  by (simp add: str_plus_def split: json.split)

lemma gemini_credentials_some:
  "(google_imported w \<and> \<not> isl (adc w)) \<or> \<not> unset (api_key self) \<Longrightarrow>
   \<exists>a ps hs. gemini_credentials w self = (Some a, ps, hs)"
  by (cases "google_imported w"; cases "adc w")
     (auto simp add: gemini_credentials_def unset_def split: option.splits)

lemma send_nonempty_no_index:
  "messages \<noteq> [] \<Longrightarrow> send_messages w p messages \<noteq> Inl (Raised IndexError)"
proof (cases p)
  case (GeminiProvider self)
  obtain a ps hs where c: "gemini_credentials w self = (a, ps, hs)"
    by (cases "gemini_credentials w self") auto
  assume "messages \<noteq> []"
  then show ?thesis
    using GeminiProvider c last_content_nonempty [of messages]
    by (cases a; cases "last_content messages") (simp_all add: gemini_send_messages_def)
next
  case (OlamaProvider u)
  assume "messages \<noteq> []"
  then show ?thesis
    using OlamaProvider last_content_nonempty [of messages] str_plus_no_index
    by (cases "last_content messages")
       (auto simp add: olama_send_messages_def wrap_str_def split: sum.splits)
next
  case (OpenAIProvider k)
  assume "messages \<noteq> []"
  then show ?thesis
    using OpenAIProvider last_content_nonempty [of messages] str_plus_no_index
    by (cases "last_content messages")
       (auto simp add: openai_send_messages_def wrap_str_def split: sum.splits)
qed

text \<open>
  C10, as amended. A provider whose configuration is in place (the Olama URL or the
  OpenAI key set and non-empty, Gemini credentials resolved from either source) reads
  the last message as the prompt, and on the empty sequence raises IndexError. A
  provider whose configuration is missing returns its placeholder text before it reads
  the messages, for every sequence, the empty one included. A non-empty sequence never
  raises IndexError.
\<close>

theorem send_on_empty_messages:
  "(\<not> unset u \<longrightarrow> send_messages w (OlamaProvider u) [] = Inl (Raised IndexError)) \<and>
   (unset u \<longrightarrow>
      send_messages w (OlamaProvider u) messages = Inr (JStr ''(olama) olama URL not configured'')) \<and>
   (\<not> unset u \<longrightarrow> send_messages w (OpenAIProvider u) [] = Inl (Raised IndexError)) \<and>
   (unset u \<longrightarrow>
      send_messages w (OpenAIProvider u) messages = Inr (JStr ''(openai) API key not set'')) \<and>
   ((google_imported w \<and> \<not> isl (adc w)) \<or> \<not> unset (api_key self) \<longrightarrow>
      send_messages w (GeminiProvider self) [] = Inl (Raised IndexError)) \<and>
   ((\<not> google_imported w \<or> isl (adc w)) \<and> unset (api_key self) \<longrightarrow>
      send_messages w (GeminiProvider self) messages =
        Inr (JStr ''(gemini) no credentials available; set GOOGLE_APPLICATION_CREDENTIALS or GEMINI_API_KEY'')) \<and>
   (messages \<noteq> [] \<longrightarrow> send_messages w p messages \<noteq> Inl (Raised IndexError))"
proof (intro conjI impI)
  show "send_messages w (OlamaProvider u) [] = Inl (Raised IndexError)" if "\<not> unset u"
    using that by (simp add: olama_send_messages_def wrap_str_def last_content_Nil)
  show "send_messages w (OlamaProvider u) messages = Inr (JStr ''(olama) olama URL not configured'')"
    if "unset u"
    using that by (simp add: olama_send_messages_def wrap_str_def)
  show "send_messages w (OpenAIProvider u) [] = Inl (Raised IndexError)" if "\<not> unset u"
    using that by (simp add: openai_send_messages_def wrap_str_def last_content_Nil)
  show "send_messages w (OpenAIProvider u) messages = Inr (JStr ''(openai) API key not set'')"
    if "unset u"
    using that by (simp add: openai_send_messages_def wrap_str_def)
  show "send_messages w (GeminiProvider self) [] = Inl (Raised IndexError)"
    if "(google_imported w \<and> \<not> isl (adc w)) \<or> \<not> unset (api_key self)"
    using gemini_credentials_some [OF that]
    by (auto simp add: gemini_send_messages_def last_content_Nil)
  show "send_messages w (GeminiProvider self) messages =
        Inr (JStr ''(gemini) no credentials available; set GOOGLE_APPLICATION_CREDENTIALS or GEMINI_API_KEY'')"
    if "(\<not> google_imported w \<or> isl (adc w)) \<and> unset (api_key self)"
    using that
    by (simp add: gemini_send_messages_def gemini_credentials_none gemini_no_credentials_def)
  show "send_messages w p messages \<noteq> Inl (Raised IndexError)" if "messages \<noteq> []"
    using that by (rule send_nonempty_no_index)
qed

theorem send_on_empty_messages_witness:
  "send_messages demo_cloud (OlamaProvider (Some ''http://localhost:11434'')) [] =
     Inl (Raised IndexError) \<and>
   send_messages demo_cloud (OlamaProvider None) [user_msg ''hi''] =
     Inr (JStr ''(olama) olama URL not configured'') \<and>
   send_messages demo_cloud (OpenAIProvider (Some ''http://localhost:11434'')) [] =
     Inl (Raised IndexError) \<and>
   send_messages demo_cloud (OpenAIProvider None) [user_msg ''hi''] =
     Inr (JStr ''(openai) API key not set'') \<and>
   send_messages demo_cloud (GeminiProvider \<lparr>api_key = None, endpoint = None\<rparr>) [] =
     Inl (Raised IndexError) \<and>
   send_messages (demo_cloud\<lparr>google_imported := False\<rparr>)
       (GeminiProvider \<lparr>api_key = None, endpoint = None\<rparr>) [user_msg ''hi''] =
     Inr (JStr ''(gemini) no credentials available; set GOOGLE_APPLICATION_CREDENTIALS or GEMINI_API_KEY'') \<and>
   send_messages demo_cloud (OlamaProvider (Some ''http://localhost:11434'')) [user_msg ''hi''] \<noteq>
     Inl (Raised IndexError)"
proof -
  have c: "google_imported demo_cloud \<and> \<not> isl (adc demo_cloud)"
    by (simp add: demo_cloud_def)
  have n: "[user_msg ''hi''] \<noteq> []"
    by simp
  show ?thesis
    using send_on_empty_messages
            [of "Some ''http://localhost:11434''" demo_cloud "[user_msg ''hi'']"
                "\<lparr>api_key = None, endpoint = None\<rparr>"
                "OlamaProvider (Some ''http://localhost:11434'')"]
          send_on_empty_messages
            [of None "demo_cloud\<lparr>google_imported := False\<rparr>" "[user_msg ''hi'']"
                "\<lparr>api_key = None, endpoint = None\<rparr>"]
          c n
    by (simp add: unset_def)
qed

text \<open>
  C10 as stated fails: on the empty sequence an unconfigured provider returns its
  placeholder text, it does not raise IndexError.
\<close>

theorem empty_messages_placeholder_counterexample:
  "send_messages demo_cloud (OlamaProvider None) [] =
     Inr (JStr ''(olama) olama URL not configured'') \<and>
   send_messages demo_cloud (OpenAIProvider None) [] = Inr (JStr ''(openai) API key not set'') \<and>
   send_messages (demo_cloud\<lparr>google_imported := False\<rparr>)
       (GeminiProvider \<lparr>api_key = None, endpoint = None\<rparr>) [] =
     Inr (JStr ''(gemini) no credentials available; set GOOGLE_APPLICATION_CREDENTIALS or GEMINI_API_KEY'')"
  by (simp add: olama_send_messages_def openai_send_messages_def wrap_str_def unset_def
        gemini_send_messages_def gemini_credentials_def gemini_no_credentials_def demo_cloud_def)

section \<open>Context assembly\<close>

lemma has_user_role_iff: "has_user_role m \<longleftrightarrow> is_dict m \<and> dict_get m ''role'' = JStr ''user''"
  by (cases m) (auto simp add: has_user_role_def split: option.splits)

lemma scan_user_filter:
  "scan_user ms =
     (case filter has_user_role ms of [] \<Rightarrow> JNull | u # us \<Rightarrow> dict_get u ''content'')"
  by (induction ms) (simp_all add: has_user_role_iff)

lemma last_user_none: "\<not> list_ex has_user_role ms \<Longrightarrow> last_user ms = JNull"
  by (simp add: last_user_def scan_user_filter list_ex_iff filter_empty_conv split: list.split)

lemma last_user_some: "list_ex has_user_role ms \<Longrightarrow> last_user ms = spec_last_user_content ms"
proof -
  assume "list_ex has_user_role ms"
  then have ne: "filter has_user_role ms \<noteq> []"
    by (simp add: list_ex_iff filter_empty_conv)
  then obtain u us where r: "rev (filter has_user_role ms) = u # us"
    by (cases "rev (filter has_user_role ms)") auto
  then have "last (filter has_user_role ms) = u"
    using ne by (metis last_rev list.sel(1) rev_rev_ident hd_rev)
  then show ?thesis
    using r by (simp add: last_user_def scan_user_filter spec_last_user_content_def rev_filter [symmetric])
qed

text \<open>
  C5, as amended. Provided that the last user-role message, when there is one, has
  truthy content (for text: it is not empty), the assembled sequence is the reference
  definition's: with retrieval enabled, a user-role message and at least one retrieved
  document, it is the one system message followed by the unchanged input sequence, and in
  every other case it is the input sequence. When the last user-role message has falsy
  content (empty, or none at all), the code issues no query and the assembled sequence is
  the input sequence.
\<close>

theorem context_assembly_refines_reference:
  "((list_ex has_user_role messages \<longrightarrow> truthy (spec_last_user_content messages)) \<longrightarrow>
      fst (messages_to_send st rag_enabled messages) =
        spec_assemble rag_enabled messages (spec_retrieved st messages)) \<and>
   (list_ex has_user_role messages \<and> \<not> truthy (spec_last_user_content messages) \<longrightarrow>
      fst (messages_to_send st rag_enabled messages) = messages)"
proof (cases "list_ex has_user_role messages")
  case True
  then have lu: "last_user messages = spec_last_user_content messages"
    by (rule last_user_some)
  show ?thesis
  proof (cases "truthy (spec_last_user_content messages)")
    case t: True
    show ?thesis
      using True t lu
      by (cases "rag_query st (spec_last_user_content messages) 3")
         (simp_all add: messages_to_send_def spec_assemble_def spec_retrieved_def system_msg_def)
  next
    case False
    then show ?thesis
      using True lu by (simp add: messages_to_send_def)
  qed
next
  case False
  then have "last_user messages = JNull"
    by (rule last_user_none)
  then show ?thesis
    using False by (simp add: messages_to_send_def spec_assemble_def)
qed

theorem context_assembly_refines_reference_witness:
  "fst (messages_to_send (demo_store [doc_x]) True [user_msg ''What is X?'']) =
     [JObj [(''role'', JStr ''system''),
            (''content'', JStr (''Relevant documents:'' @ [newline] @ ''X is a thing.''))],
      JObj [(''role'', JStr ''user''), (''content'', JStr ''What is X?'')]] \<and>
   fst (messages_to_send (demo_store [doc_x]) True
          [JObj [(''role'', JStr ''user'')], JObj [(''role'', JStr ''assistant'')]]) =
     [JObj [(''role'', JStr ''user'')], JObj [(''role'', JStr ''assistant'')]]"
proof -
  have u: "list_ex has_user_role [user_msg ''What is X?'']"
    by (simp add: has_user_role_def user_msg_def)
  have c: "spec_last_user_content [user_msg ''What is X?''] = JStr ''What is X?''"
    by (simp add: spec_last_user_content_def has_user_role_def user_msg_def)
  have r: "spec_retrieved (demo_store [doc_x]) [user_msg ''What is X?''] =
             [\<lparr>document = ''X is a thing.'', metadata = [], distance = 0\<rparr>]"
    using u c
    by (simp add: spec_retrieved_def rag_query_def demo_store_def first_k_query_def zip3_def
          doc_x_def)
  have u2: "list_ex has_user_role [JObj [(''role'', JStr ''user'')], JObj [(''role'', JStr ''assistant'')]]"
    by (simp add: has_user_role_def)
  have c2: "spec_last_user_content
              [JObj [(''role'', JStr ''user'')], JObj [(''role'', JStr ''assistant'')]] = JNull"
    by (simp add: spec_last_user_content_def has_user_role_def)
  show ?thesis
    using context_assembly_refines_reference
            [of "[user_msg ''What is X?'']" "demo_store [doc_x]" True]
          context_assembly_refines_reference
            [of "[JObj [(''role'', JStr ''user'')], JObj [(''role'', JStr ''assistant'')]]"
                "demo_store [doc_x]" True]
          u c r u2 c2
    by (simp add: spec_assemble_def user_msg_def has_user_role_def)
qed

text \<open>
  C5 as stated fails: for a conversation whose last user-role message has empty content,
  with retrieval enabled and a store that answers the query with a document, the
  reference definition puts the system message in front and the code leaves the sequence
  as it is (\<^verbatim>\<open>if last_user:\<close> skips the query).
\<close>

theorem empty_user_content_counterexample:
  "fst (messages_to_send (demo_store [doc_x]) True [user_msg []]) = [user_msg []] \<and>
   spec_assemble True [user_msg []] (spec_retrieved (demo_store [doc_x]) [user_msg []]) =
     [JObj [(''role'', JStr ''system''),
            (''content'', JStr (''Relevant documents:'' @ [newline] @ ''X is a thing.''))],
      user_msg []]"
proof -
  have "last_user [user_msg []] = JStr []"
    by (simp add: last_user_def user_msg_def)
  then have a: "fst (messages_to_send (demo_store [doc_x]) True [user_msg []]) = [user_msg []]"
    by (simp add: messages_to_send_def)
  have u: "list_ex has_user_role [user_msg []]"
    by (simp add: has_user_role_def user_msg_def)
  have c: "spec_last_user_content [user_msg []] = JStr []"
    by (simp add: spec_last_user_content_def has_user_role_def user_msg_def)
  have "spec_retrieved (demo_store [doc_x]) [user_msg []] =
          [\<lparr>document = ''X is a thing.'', metadata = [], distance = 0\<rparr>]"
    using u c
    by (simp add: spec_retrieved_def rag_query_def demo_store_def first_k_query_def zip3_def
          doc_x_def)
  then show ?thesis
    using a u by (simp add: spec_assemble_def)
qed

section \<open>The example request, evaluated\<close>

lemma lower_bearer: "lower ''Bearer'' = ''bearer''"
  by code_simp

lemma lower_olama: "lower ''olama'' = ''olama''"
  by code_simp

lemma split_bearer: "py_split ''Bearer abc123'' = [''Bearer'', ''abc123'']"
  by code_simp

lemma str_int_0: "str_int 0 = ''0''"
  by code_simp

lemma demo_auth:
  "get_tenant_from_header (app_verify_api_key demo_app) (Some ''Bearer abc123'') =
     (Inr ''t1'', [VerifyApiKey ''abc123''])"
  by (simp add: get_tenant_from_header_def demo_app_def split_bearer lower_bearer)

lemma demo_provider:
  "get_provider (environ (app_cloud demo_app)) (req_provider demo_request) =
     Some (OlamaProvider None)"
  by (simp add: get_provider_def demo_app_def demo_cloud_def demo_request_def lower_olama)

lemma demo_messages:
  "messages_to_send (app_rag_store demo_app) (req_rag demo_request) (req_messages demo_request) =
     ([system_msg [\<lparr>document = ''X is a thing.'', metadata = [], distance = 0\<rparr>],
       user_msg ''What is X?''],
      [RagQuery (JStr ''What is X?'') 3])"
proof -
  have "last_user [user_msg ''What is X?''] = JStr ''What is X?''"
    by (simp add: last_user_def user_msg_def)
  then show ?thesis
    by (simp add: messages_to_send_def demo_app_def demo_request_def rag_query_def
          demo_store_def first_k_query_def zip3_def doc_x_def)
qed

lemma quota_key_0: "quota_key ''t1'' 0 = ''quota:t1:0''"
  by (simp add: quota_key_def str_int_0)

lemma demo_max: "app_max_reqs demo_app = EnvUnset"
  by (simp add: demo_app_def)

lemma demo_trace:
  "snd (snd (post_chat demo_app 0 (Client (Up Map.empty)) (Some ''Bearer abc123'') demo_request)) =
     [VerifyApiKey ''abc123'', GetProvider ''olama'', RagQuery (JStr ''What is X?'') 3,
      RedisIncr ''quota:t1:0'', RedisExpire ''quota:t1:0'' 61,
      SendMessages [system_msg [\<lparr>document = ''X is a thing.'', metadata = [], distance = 0\<rparr>],
                    user_msg ''What is X?'']]"
proof -
  have q: "quota_check EnvUnset ''t1'' 0 (Client (Up Map.empty)) =
             (None,
              Client (Up (Map.empty(''quota:t1:0'' \<mapsto> \<lparr>r_value = 1, r_expire_at = Some 61\<rparr>))),
              [RedisIncr ''quota:t1:0'', RedisExpire ''quota:t1:0'' 61])"
    by (simp add: quota_check_def quota_key_0 redis_incr_def redis_expire_def live_entry_def
          max_per_min_def Let_def)
  show ?thesis
    by (simp add: post_chat_def chat_def demo_auth demo_provider demo_messages demo_max q
          olama_send_messages_def wrap_str_def unset_def)
       (simp add: demo_request_def)
qed

section \<open>Order of the calls of a request\<close>

lemma phase_const_sorted: "list_all (\<lambda>e. f e = (c::nat)) xs \<Longrightarrow> sorted (map f xs)"
  by (induction xs) (auto simp add: list_all_iff)

lemma auth_events_phase:
  "list_all (\<lambda>e. code_phase e = 0) (snd (get_tenant_from_header v h))"
  by (simp add: get_tenant_from_header_def split: option.split list.split)

lemma rag_events_phase:
  "list_all (\<lambda>e. code_phase e = 2) (snd (messages_to_send st rag ms))"
  by (simp add: messages_to_send_def split: sum.split)

lemma quota_events_phase:
  "list_all (\<lambda>e. code_phase e = 3) (snd (snd (quota_check m t now r)))"
  by (simp add: quota_check_def Let_def split: app_redis.split redis_server.split prod.split sum.split)

lemma chat_events_form:
  "\<exists>evr evq evs.
     snd (snd (chat a now redis t req)) = GetProvider (req_provider req) # evr @ evq @ evs \<and>
     list_all (\<lambda>e. code_phase e = 2) evr \<and> list_all (\<lambda>e. code_phase e = 3) evq \<and>
     list_all (\<lambda>e. code_phase e = 4) evs"
proof (cases "get_provider (environ (app_cloud a)) (req_provider req)")
  case None
  then have "snd (snd (chat a now redis t req)) = GetProvider (req_provider req) # [] @ [] @ []"
    by (simp add: chat_def)
  then show ?thesis
    by (intro exI [of _ "[]"] conjI) simp_all
next
  case (Some p)
  obtain msgs evr where m:
    "messages_to_send (app_rag_store a) (req_rag req) (req_messages req) = (msgs, evr)"
    by (cases "messages_to_send (app_rag_store a) (req_rag req) (req_messages req)")
  obtain rej r1 evq where q: "quota_check (app_max_reqs a) t now redis = (rej, r1, evq)"
    by (cases "quota_check (app_max_reqs a) t now redis")
  have r: "list_all (\<lambda>e. code_phase e = 2) evr"
    using rag_events_phase [of "app_rag_store a" "req_rag req" "req_messages req"] m by simp
  have k: "list_all (\<lambda>e. code_phase e = 3) evq"
    using quota_events_phase [of "app_max_reqs a" t now redis] q by simp
  show ?thesis
  proof (cases rej)
    case None
    then have "snd (snd (chat a now redis t req)) =
                 GetProvider (req_provider req) # evr @ evq @ [SendMessages msgs]"
      using Some m q by (simp add: chat_def Let_def split: sum.split)
    then show ?thesis
      using r k by (intro exI [of _ evr] exI [of _ evq] exI [of _ "[SendMessages msgs]"]) simp
  next
    case (Some e)
    then have "snd (snd (chat a now redis t req)) = GetProvider (req_provider req) # evr @ evq @ []"
      using \<open>get_provider (environ (app_cloud a)) (req_provider req) = Some p\<close> m q
      by (simp add: chat_def Let_def)
    then show ?thesis
      using r k by (intro exI [of _ evr] exI [of _ evq] exI [of _ "[]"]) simp
  qed
qed

lemma chat_stream_events_form:
  "\<exists>evr evq evs.
     snd (snd (chat_stream a now redis t req)) = GetProvider (req_provider req) # evr @ evq @ evs \<and>
     list_all (\<lambda>e. code_phase e = 2) evr \<and> list_all (\<lambda>e. code_phase e = 3) evq \<and>
     list_all (\<lambda>e. code_phase e = 4) evs"
proof (cases "get_provider (environ (app_cloud a)) (req_provider req)")
  case None
  then have "snd (snd (chat_stream a now redis t req)) =
               GetProvider (req_provider req) # [] @ [] @ []"
    by (simp add: chat_stream_def)
  then show ?thesis
    by (intro exI [of _ "[]"] conjI) simp_all
next
  case (Some p)
  obtain msgs evr where m:
    "messages_to_send (app_rag_store a) (req_rag req) (req_messages req) = (msgs, evr)"
    by (cases "messages_to_send (app_rag_store a) (req_rag req) (req_messages req)")
  obtain rej r1 evq where q: "quota_check (app_max_reqs a) t now redis = (rej, r1, evq)"
    by (cases "quota_check (app_max_reqs a) t now redis")
  have r: "list_all (\<lambda>e. code_phase e = 2) evr"
    using rag_events_phase [of "app_rag_store a" "req_rag req" "req_messages req"] m by simp
  have k: "list_all (\<lambda>e. code_phase e = 3) evq"
    using quota_events_phase [of "app_max_reqs a" t now redis] q by simp
  show ?thesis
  proof (cases rej)
    case None
    then have "snd (snd (chat_stream a now redis t req)) =
                 GetProvider (req_provider req) # evr @ evq @ [StreamingResponse msgs]"
      using Some m q by (simp add: chat_stream_def Let_def)
    then show ?thesis
      using r k
      by (intro exI [of _ evr] exI [of _ evq] exI [of _ "[StreamingResponse msgs]"]) simp
  next
    case (Some e)
    then have "snd (snd (chat_stream a now redis t req)) =
                 GetProvider (req_provider req) # evr @ evq @ []"
      using \<open>get_provider (environ (app_cloud a)) (req_provider req) = Some p\<close> m q
      by (simp add: chat_stream_def Let_def)
    then show ?thesis
      using r k by (intro exI [of _ evr] exI [of _ evq] exI [of _ "[]"]) simp
  qed
qed

lemma phases_sorted:
  assumes "list_all (\<lambda>e. code_phase e = 0) ev0"
    and "list_all (\<lambda>e. code_phase e = 2) evr"
    and "list_all (\<lambda>e. code_phase e = 3) evq"
    and "list_all (\<lambda>e. code_phase e = 4) evs"
  shows "sorted (map code_phase (ev0 @ GetProvider n # evr @ evq @ evs))"
  using assms phase_const_sorted [of code_phase 0 ev0] phase_const_sorted [of code_phase 2 evr]
    phase_const_sorted [of code_phase 3 evq] phase_const_sorted [of code_phase 4 evs]
  by (auto simp add: sorted_append list_all_iff)

lemma post_chat_sorted:
  "sorted (map code_phase (snd (snd (post_chat a now redis h req))))"
proof -
  obtain res ev0 where g: "get_tenant_from_header (app_verify_api_key a) h = (res, ev0)"
    by (cases "get_tenant_from_header (app_verify_api_key a) h")
  have z: "list_all (\<lambda>e. code_phase e = 0) ev0"
    using auth_events_phase [of "app_verify_api_key a" h] g by simp
  show ?thesis
  proof (cases res)
    case (Inl e)
    then show ?thesis
      using g z by (simp add: post_chat_def phase_const_sorted)
  next
    case (Inr t)
    obtain x r1 b where c: "chat a now redis t req = (x, r1, b)"
      by (cases "chat a now redis t req")
    obtain evr evq evs where
      "b = GetProvider (req_provider req) # evr @ evq @ evs"
      "list_all (\<lambda>e. code_phase e = 2) evr" "list_all (\<lambda>e. code_phase e = 3) evq"
      "list_all (\<lambda>e. code_phase e = 4) evs"
      using chat_events_form [of a now redis t req] c by auto
    then show ?thesis
      using Inr g z c phases_sorted [of ev0 evr evq evs "req_provider req"]
      by (simp add: post_chat_def)
  qed
qed

lemma post_chat_stream_sorted:
  "sorted (map code_phase (snd (snd (post_chat_stream a now redis h req))))"
proof -
  obtain res ev0 where g: "get_tenant_from_header (app_verify_api_key a) h = (res, ev0)"
    by (cases "get_tenant_from_header (app_verify_api_key a) h")
  have z: "list_all (\<lambda>e. code_phase e = 0) ev0"
    using auth_events_phase [of "app_verify_api_key a" h] g by simp
  show ?thesis
  proof (cases res)
    case (Inl e)
    then show ?thesis
      using g z by (simp add: post_chat_stream_def phase_const_sorted)
  next
    case (Inr t)
    obtain x r1 b where c: "chat_stream a now redis t req = (x, r1, b)"
      by (cases "chat_stream a now redis t req")
    obtain evr evq evs where
      "b = GetProvider (req_provider req) # evr @ evq @ evs"
      "list_all (\<lambda>e. code_phase e = 2) evr" "list_all (\<lambda>e. code_phase e = 3) evq"
      "list_all (\<lambda>e. code_phase e = 4) evs"
      using chat_stream_events_form [of a now redis t req] c by auto
    then show ?thesis
      using Inr g z c phases_sorted [of ev0 evr evq evs "req_provider req"]
      by (simp add: post_chat_stream_def)
  qed
qed

lemma chat_known_provider:
  assumes "get_provider (environ (app_cloud a)) (req_provider req) = Some p"
  shows "chat a now redis t req =
           ((case fst (quota_check (app_max_reqs a) t now redis) of
               Some e \<Rightarrow> Inl e
             | None \<Rightarrow>
                 (case send_messages (app_cloud a) p
                         (fst (messages_to_send (app_rag_store a) (req_rag req) (req_messages req))) of
                    Inl e \<Rightarrow> Inl e
                  | Inr reply \<Rightarrow> Inr (JObj [(''reply'', reply)]))),
            fst (snd (quota_check (app_max_reqs a) t now redis)),
            GetProvider (req_provider req) #
            snd (messages_to_send (app_rag_store a) (req_rag req) (req_messages req)) @
            snd (snd (quota_check (app_max_reqs a) t now redis)) @
            (case fst (quota_check (app_max_reqs a) t now redis) of
               None \<Rightarrow>
                 [SendMessages
                    (fst (messages_to_send (app_rag_store a) (req_rag req) (req_messages req)))]
             | Some e \<Rightarrow> []))"
  using assms
  by (simp add: chat_def Let_def split: prod.split option.split sum.split)

lemma chat_stream_known_provider:
  assumes "get_provider (environ (app_cloud a)) (req_provider req) = Some p"
  shows "chat_stream a now redis t req =
           ((case fst (quota_check (app_max_reqs a) t now redis) of
               Some e \<Rightarrow> Inl e
             | None \<Rightarrow>
                 Inr \<lparr>sr_provider = p,
                      sr_messages =
                        fst (messages_to_send (app_rag_store a) (req_rag req) (req_messages req))\<rparr>),
            fst (snd (quota_check (app_max_reqs a) t now redis)),
            GetProvider (req_provider req) #
            snd (messages_to_send (app_rag_store a) (req_rag req) (req_messages req)) @
            snd (snd (quota_check (app_max_reqs a) t now redis)) @
            (case fst (quota_check (app_max_reqs a) t now redis) of
               None \<Rightarrow>
                 [StreamingResponse
                    (fst (messages_to_send (app_rag_store a) (req_rag req) (req_messages req)))]
             | Some e \<Rightarrow> []))"
  using assms
  by (simp add: chat_stream_def Let_def split: prod.split option.split)

lemma auth_success_events:
  "fst (get_tenant_from_header v h) = Inr t \<Longrightarrow>
   map code_phase (snd (get_tenant_from_header v h)) = [0]"
  by (auto simp add: get_tenant_from_header_def split: option.splits list.splits if_splits)

lemma rag_events:
  "snd (messages_to_send st rag ms) =
     (if rag \<and> truthy (last_user ms) then [RagQuery (last_user ms) 3] else [])"
  by (simp add: messages_to_send_def split: sum.split)

lemma quota_events_client:
  "take 1 (snd (snd (quota_check m t now (Client server)))) = [RedisIncr (quota_key t now)]"
  by (simp add: quota_check_def Let_def split: redis_server.split sum.split prod.split)

lemma quota_events_no_client:
  "redis = AttrMissing \<or> redis = AttrNone \<Longrightarrow> snd (snd (quota_check m t now redis)) = []"
  by (auto simp add: quota_check_def)

lemma lower_made_up: "lower ''made-up'' = ''made-up''"
  by code_simp

text \<open>
  C2, as amended. For every request to \<^verbatim>\<open>/chat\<close> and to \<^verbatim>\<open>/chat/stream\<close> the
  steps run in the order authentication, provider resolution, retrieval query, quota
  check, provider call (each request's events are sorted by that order), and they are
  exactly these. A request that fails authentication leaves the counter store as it was
  and calls nothing after the Tenant Store. An authenticated request makes the one
  Tenant Store lookup and then runs the handler. The handler resolves the provider
  first: an unknown provider is rejected there with status 400, with no retrieval query,
  no counter command and no provider call. With a known provider it makes the retrieval
  query (one query, top-k 3, when retrieval is enabled and the last user content is
  truthy, none otherwise), then the quota check (with a client in place the first command
  is the increment of the tenant's key, without one no command is issued), and calls the
  provider, or opens the stream, exactly when the quota check lets the request through;
  a request the quota check stops gets that check's error and no provider call.
\<close>

theorem orchestration_steps_order:
  "sorted (map code_phase (snd (snd (post_chat a now redis authorization req)))) \<and>
   sorted (map code_phase (snd (snd (post_chat_stream a now redis authorization req)))) \<and>
   (isl (fst (get_tenant_from_header (app_verify_api_key a) authorization)) \<longrightarrow>
      fst (snd (post_chat a now redis authorization req)) = redis \<and>
      list_all (\<lambda>e. code_phase e = 0) (snd (snd (post_chat a now redis authorization req))) \<and>
      fst (snd (post_chat_stream a now redis authorization req)) = redis \<and>
      list_all (\<lambda>e. code_phase e = 0)
        (snd (snd (post_chat_stream a now redis authorization req)))) \<and>
   (fst (get_tenant_from_header (app_verify_api_key a) authorization) = Inr t \<longrightarrow>
      map code_phase (snd (get_tenant_from_header (app_verify_api_key a) authorization)) = [0] \<and>
      post_chat a now redis authorization req =
        (fst (chat a now redis t req), fst (snd (chat a now redis t req)),
         snd (get_tenant_from_header (app_verify_api_key a) authorization) @
         snd (snd (chat a now redis t req))) \<and>
      post_chat_stream a now redis authorization req =
        (fst (chat_stream a now redis t req), fst (snd (chat_stream a now redis t req)),
         snd (get_tenant_from_header (app_verify_api_key a) authorization) @
         snd (snd (chat_stream a now redis t req)))) \<and>
   (get_provider (environ (app_cloud a)) (req_provider req) = None \<longrightarrow>
      chat a now redis t req =
        (Inl (HTTPException 400 ''Unknown provider''), redis, [GetProvider (req_provider req)]) \<and>
      chat_stream a now redis t req =
        (Inl (HTTPException 400 ''Unknown provider''), redis, [GetProvider (req_provider req)])) \<and>
   (get_provider (environ (app_cloud a)) (req_provider req) = Some p \<longrightarrow>
      chat a now redis t req =
        ((case fst (quota_check (app_max_reqs a) t now redis) of
            Some e \<Rightarrow> Inl e
          | None \<Rightarrow>
              (case send_messages (app_cloud a) p
                      (fst (messages_to_send (app_rag_store a) (req_rag req) (req_messages req))) of
                 Inl e \<Rightarrow> Inl e
               | Inr reply \<Rightarrow> Inr (JObj [(''reply'', reply)]))),
         fst (snd (quota_check (app_max_reqs a) t now redis)),
         GetProvider (req_provider req) #
         snd (messages_to_send (app_rag_store a) (req_rag req) (req_messages req)) @
         snd (snd (quota_check (app_max_reqs a) t now redis)) @
         (case fst (quota_check (app_max_reqs a) t now redis) of
            None \<Rightarrow>
              [SendMessages
                 (fst (messages_to_send (app_rag_store a) (req_rag req) (req_messages req)))]
          | Some e \<Rightarrow> [])) \<and>
      chat_stream a now redis t req =
        ((case fst (quota_check (app_max_reqs a) t now redis) of
            Some e \<Rightarrow> Inl e
          | None \<Rightarrow>
              Inr \<lparr>sr_provider = p,
                   sr_messages =
                     fst (messages_to_send (app_rag_store a) (req_rag req) (req_messages req))\<rparr>),
         fst (snd (quota_check (app_max_reqs a) t now redis)),
         GetProvider (req_provider req) #
         snd (messages_to_send (app_rag_store a) (req_rag req) (req_messages req)) @
         snd (snd (quota_check (app_max_reqs a) t now redis)) @
         (case fst (quota_check (app_max_reqs a) t now redis) of
            None \<Rightarrow>
              [StreamingResponse
                 (fst (messages_to_send (app_rag_store a) (req_rag req) (req_messages req)))]
          | Some e \<Rightarrow> []))) \<and>
   snd (messages_to_send (app_rag_store a) (req_rag req) (req_messages req)) =
     (if req_rag req \<and> truthy (last_user (req_messages req))
      then [RagQuery (last_user (req_messages req)) 3] else []) \<and>
   take 1 (snd (snd (quota_check (app_max_reqs a) t now (Client server)))) =
     [RedisIncr (quota_key t now)] \<and>
   (redis = AttrMissing \<or> redis = AttrNone \<longrightarrow>
      snd (snd (quota_check (app_max_reqs a) t now redis)) = [])"
proof (intro conjI impI)
  show "sorted (map code_phase (snd (snd (post_chat a now redis authorization req))))"
    by (rule post_chat_sorted)
  show "sorted (map code_phase (snd (snd (post_chat_stream a now redis authorization req))))"
    by (rule post_chat_stream_sorted)
next
  assume f: "isl (fst (get_tenant_from_header (app_verify_api_key a) authorization))"
  obtain res ev0 where g: "get_tenant_from_header (app_verify_api_key a) authorization = (res, ev0)"
    by (cases "get_tenant_from_header (app_verify_api_key a) authorization")
  from f g obtain e where e: "res = Inl e"
    by (cases res) auto
  have z: "list_all (\<lambda>e. code_phase e = 0) ev0"
    using auth_events_phase [of "app_verify_api_key a" authorization] g by simp
  show "fst (snd (post_chat a now redis authorization req)) = redis"
    using g e by (simp add: post_chat_def)
  show "list_all (\<lambda>e. code_phase e = 0) (snd (snd (post_chat a now redis authorization req)))"
    using g e z by (simp add: post_chat_def)
  show "fst (snd (post_chat_stream a now redis authorization req)) = redis"
    using g e by (simp add: post_chat_stream_def)
  show "list_all (\<lambda>e. code_phase e = 0)
          (snd (snd (post_chat_stream a now redis authorization req)))"
    using g e z by (simp add: post_chat_stream_def)
next
  assume s: "fst (get_tenant_from_header (app_verify_api_key a) authorization) = Inr t"
  obtain ev0 where g: "get_tenant_from_header (app_verify_api_key a) authorization = (Inr t, ev0)"
    using s by (cases "get_tenant_from_header (app_verify_api_key a) authorization") auto
  show "map code_phase (snd (get_tenant_from_header (app_verify_api_key a) authorization)) = [0]"
    using s by (rule auth_success_events)
  show "post_chat a now redis authorization req =
        (fst (chat a now redis t req), fst (snd (chat a now redis t req)),
         snd (get_tenant_from_header (app_verify_api_key a) authorization) @
         snd (snd (chat a now redis t req)))"
    using g by (simp add: post_chat_def split: prod.split)
  show "post_chat_stream a now redis authorization req =
        (fst (chat_stream a now redis t req), fst (snd (chat_stream a now redis t req)),
         snd (get_tenant_from_header (app_verify_api_key a) authorization) @
         snd (snd (chat_stream a now redis t req)))"
    using g by (simp add: post_chat_stream_def split: prod.split)
next
  assume n: "get_provider (environ (app_cloud a)) (req_provider req) = None"
  show "chat a now redis t req =
        (Inl (HTTPException 400 ''Unknown provider''), redis, [GetProvider (req_provider req)])"
    using n by (simp add: chat_def)
  show "chat_stream a now redis t req =
        (Inl (HTTPException 400 ''Unknown provider''), redis, [GetProvider (req_provider req)])"
    using n by (simp add: chat_stream_def)
next
  assume p: "get_provider (environ (app_cloud a)) (req_provider req) = Some p"
  show "chat a now redis t req =
        ((case fst (quota_check (app_max_reqs a) t now redis) of
            Some e \<Rightarrow> Inl e
          | None \<Rightarrow>
              (case send_messages (app_cloud a) p
                      (fst (messages_to_send (app_rag_store a) (req_rag req) (req_messages req))) of
                 Inl e \<Rightarrow> Inl e
               | Inr reply \<Rightarrow> Inr (JObj [(''reply'', reply)]))),
         fst (snd (quota_check (app_max_reqs a) t now redis)),
         GetProvider (req_provider req) #
         snd (messages_to_send (app_rag_store a) (req_rag req) (req_messages req)) @
         snd (snd (quota_check (app_max_reqs a) t now redis)) @
         (case fst (quota_check (app_max_reqs a) t now redis) of
            None \<Rightarrow>
              [SendMessages
                 (fst (messages_to_send (app_rag_store a) (req_rag req) (req_messages req)))]
          | Some e \<Rightarrow> []))"
    using p by (rule chat_known_provider)
  show "chat_stream a now redis t req =
        ((case fst (quota_check (app_max_reqs a) t now redis) of
            Some e \<Rightarrow> Inl e
          | None \<Rightarrow>
              Inr \<lparr>sr_provider = p,
                   sr_messages =
                     fst (messages_to_send (app_rag_store a) (req_rag req) (req_messages req))\<rparr>),
         fst (snd (quota_check (app_max_reqs a) t now redis)),
         GetProvider (req_provider req) #
         snd (messages_to_send (app_rag_store a) (req_rag req) (req_messages req)) @
         snd (snd (quota_check (app_max_reqs a) t now redis)) @
         (case fst (quota_check (app_max_reqs a) t now redis) of
            None \<Rightarrow>
              [StreamingResponse
                 (fst (messages_to_send (app_rag_store a) (req_rag req) (req_messages req)))]
          | Some e \<Rightarrow> []))"
    using p by (rule chat_stream_known_provider)
next
  show "snd (messages_to_send (app_rag_store a) (req_rag req) (req_messages req)) =
     (if req_rag req \<and> truthy (last_user (req_messages req))
      then [RagQuery (last_user (req_messages req)) 3] else [])"
    by (rule rag_events)
  show "take 1 (snd (snd (quota_check (app_max_reqs a) t now (Client server)))) =
     [RedisIncr (quota_key t now)]"
    by (rule quota_events_client)
next
  assume "redis = AttrMissing \<or> redis = AttrNone"
  then show "snd (snd (quota_check (app_max_reqs a) t now redis)) = []"
    by (rule quota_events_no_client)
qed

theorem orchestration_steps_order_witness:
  "post_chat demo_app 0 (Client (Up Map.empty)) None demo_request =
     (Inl (HTTPException 401 ''Missing Authorization header''), Client (Up Map.empty), []) \<and>
   snd (snd (post_chat demo_app 0 (Client (Up Map.empty)) (Some ''Bearer abc123'') demo_request)) =
     [VerifyApiKey ''abc123'', GetProvider ''olama'', RagQuery (JStr ''What is X?'') 3,
      RedisIncr ''quota:t1:0'', RedisExpire ''quota:t1:0'' 61,
      SendMessages [system_msg [\<lparr>document = ''X is a thing.'', metadata = [], distance = 0\<rparr>],
                    user_msg ''What is X?'']] \<and>
   snd (snd (post_chat_stream demo_app 0 AttrMissing (Some ''Bearer abc123'') demo_request)) =
     [VerifyApiKey ''abc123'', GetProvider ''olama'', RagQuery (JStr ''What is X?'') 3,
      StreamingResponse
        [system_msg [\<lparr>document = ''X is a thing.'', metadata = [], distance = 0\<rparr>],
         user_msg ''What is X?'']] \<and>
   chat demo_app 0 (Client (Up Map.empty)) ''t1'' (demo_request\<lparr>req_provider := ''made-up''\<rparr>) =
     (Inl (HTTPException 400 ''Unknown provider''), Client (Up Map.empty),
      [GetProvider ''made-up''])"
proof -
  have n: "get_tenant_from_header (app_verify_api_key demo_app) None =
             (Inl (HTTPException 401 ''Missing Authorization header''), [])"
    by (simp add: get_tenant_from_header_def)
  have q: "quota_check EnvUnset ''t1'' 0 (Client (Up Map.empty)) =
             (None,
              Client (Up (Map.empty(''quota:t1:0'' \<mapsto> \<lparr>r_value = 1, r_expire_at = Some 61\<rparr>))),
              [RedisIncr ''quota:t1:0'', RedisExpire ''quota:t1:0'' 61])"
    by (simp add: quota_check_def quota_key_0 redis_incr_def redis_expire_def live_entry_def
          max_per_min_def Let_def)
  have q0: "quota_check EnvUnset ''t1'' 0 AttrMissing = (None, AttrMissing, [])"
    by (simp add: quota_check_def)
  have u: "get_provider (environ (app_cloud demo_app))
             (req_provider (demo_request\<lparr>req_provider := ''made-up''\<rparr>)) = None"
    by (simp add: get_provider_def lower_made_up)
  have a: "post_chat demo_app 0 (Client (Up Map.empty)) None demo_request =
     (Inl (HTTPException 401 ''Missing Authorization header''), Client (Up Map.empty), [])"
    using orchestration_steps_order
            [of demo_app 0 "Client (Up Map.empty)" None demo_request]
          n
    by (simp add: post_chat_def)
  have b: "snd (snd (post_chat demo_app 0 (Client (Up Map.empty)) (Some ''Bearer abc123'')
                       demo_request)) =
     [VerifyApiKey ''abc123'', GetProvider ''olama'', RagQuery (JStr ''What is X?'') 3,
      RedisIncr ''quota:t1:0'', RedisExpire ''quota:t1:0'' 61,
      SendMessages [system_msg [\<lparr>document = ''X is a thing.'', metadata = [], distance = 0\<rparr>],
                    user_msg ''What is X?'']]"
    using orchestration_steps_order
            [of demo_app 0 "Client (Up Map.empty)" "Some ''Bearer abc123''" demo_request "''t1''"
                "OlamaProvider None"]
          demo_auth demo_provider demo_messages demo_max q
    by (simp add: demo_request_def)
  have c: "snd (snd (post_chat_stream demo_app 0 AttrMissing (Some ''Bearer abc123'')
                       demo_request)) =
     [VerifyApiKey ''abc123'', GetProvider ''olama'', RagQuery (JStr ''What is X?'') 3,
      StreamingResponse
        [system_msg [\<lparr>document = ''X is a thing.'', metadata = [], distance = 0\<rparr>],
         user_msg ''What is X?'']]"
    using orchestration_steps_order
            [of demo_app 0 AttrMissing "Some ''Bearer abc123''" demo_request "''t1''"
                "OlamaProvider None"]
          demo_auth demo_provider demo_messages demo_max q0
    by (simp add: demo_request_def)
  have d: "chat demo_app 0 (Client (Up Map.empty)) ''t1''
             (demo_request\<lparr>req_provider := ''made-up''\<rparr>) =
     (Inl (HTTPException 400 ''Unknown provider''), Client (Up Map.empty),
      [GetProvider ''made-up''])"
    using orchestration_steps_order
            [of demo_app 0 "Client (Up Map.empty)" None "demo_request\<lparr>req_provider := ''made-up''\<rparr>"
                "''t1''"]
          u
    by simp
  show ?thesis
    using a b c d by simp
qed

text \<open>
  C2 as stated fails: in the events of an authenticated request with retrieval enabled,
  the provider resolution (step 3 of the stated order) and the retrieval query (step 2)
  come before the counter store commands (step 1).
\<close>

theorem retrieval_before_quota_counterexample:
  "map spec_phase
     (snd (snd (post_chat demo_app 0 (Client (Up Map.empty)) (Some ''Bearer abc123'')
                  demo_request))) =
     [0, 3, 2, 1, 1, 4] \<and>
   \<not> sorted [0, 3, 2, 1, 1, 4 :: nat]"
  by (simp add: demo_trace)

section \<open>The quota check without a counter store\<close>

lemma quota_check_unconfigured:
  "redis = AttrMissing \<or> redis = AttrNone \<Longrightarrow>
   quota_check max_env tenant_id now redis = (None, redis, [])"
  by (auto simp add: quota_check_def)

lemma quota_check_down:
  "quota_check max_env tenant_id now (Client Down) =
     (Some (Raised RedisConnectionError), Client Down, [RedisIncr (quota_key tenant_id now)])"
  by (simp add: quota_check_def)

text \<open>
  C4, as amended. The quota check allows the request, issues no command and leaves the
  counter store alone exactly when no client is in place: \<^verbatim>\<open>REDIS_URL\<close> was unset at
  startup (the attribute is missing) or the creation of the client failed at startup (the
  attribute is \<^verbatim>\<open>None\<close>). Both endpoints then proceed to the provider with the
  assembled messages. A client that is in place and whose server is unreachable makes the
  request fail with the connection error: the check catches AttributeError only.
\<close>

theorem quota_fail_open_when_unconfigured:
  "(unset (env ''REDIS_URL'') \<or> isl from_url \<longrightarrow>
      startup_event env from_url = AttrMissing \<or> startup_event env from_url = AttrNone) \<and>
   (redis = AttrMissing \<or> redis = AttrNone \<longrightarrow>
      quota_check max_env tenant_id now redis = (None, redis, [])) \<and>
   ((redis = AttrMissing \<or> redis = AttrNone) \<and>
    get_provider (environ (app_cloud a)) (req_provider req) = Some p \<longrightarrow>
      fst (chat a now redis tenant_id req) =
        (case send_messages (app_cloud a) p
                (fst (messages_to_send (app_rag_store a) (req_rag req) (req_messages req))) of
           Inl e \<Rightarrow> Inl e
         | Inr reply \<Rightarrow> Inr (JObj [(''reply'', reply)])) \<and>
      fst (chat_stream a now redis tenant_id req) =
        Inr \<lparr>sr_provider = p,
             sr_messages =
               fst (messages_to_send (app_rag_store a) (req_rag req) (req_messages req))\<rparr>) \<and>
   (get_provider (environ (app_cloud a)) (req_provider req) = Some p \<longrightarrow>
      fst (chat a now (Client Down) tenant_id req) = Inl (Raised RedisConnectionError) \<and>
      fst (chat_stream a now (Client Down) tenant_id req) = Inl (Raised RedisConnectionError))"
proof (intro conjI impI)
  assume "unset (env ''REDIS_URL'') \<or> isl from_url"
  then show "startup_event env from_url = AttrMissing \<or> startup_event env from_url = AttrNone"
    by (cases from_url) (auto simp add: startup_event_def)
next
  assume "redis = AttrMissing \<or> redis = AttrNone"
  then show "quota_check max_env tenant_id now redis = (None, redis, [])"
    by (rule quota_check_unconfigured)
next
  assume h: "(redis = AttrMissing \<or> redis = AttrNone) \<and>
             get_provider (environ (app_cloud a)) (req_provider req) = Some p"
  then have q: "quota_check (app_max_reqs a) tenant_id now redis = (None, redis, [])"
    by (simp add: quota_check_unconfigured)
  show "fst (chat a now redis tenant_id req) =
        (case send_messages (app_cloud a) p
                (fst (messages_to_send (app_rag_store a) (req_rag req) (req_messages req))) of
           Inl e \<Rightarrow> Inl e
         | Inr reply \<Rightarrow> Inr (JObj [(''reply'', reply)]))"
    using h q by (simp add: chat_def Let_def split: prod.split sum.split)
  show "fst (chat_stream a now redis tenant_id req) =
        Inr \<lparr>sr_provider = p,
             sr_messages =
               fst (messages_to_send (app_rag_store a) (req_rag req) (req_messages req))\<rparr>"
    using h q by (simp add: chat_stream_def Let_def split: prod.split)
next
  assume h: "get_provider (environ (app_cloud a)) (req_provider req) = Some p"
  show "fst (chat a now (Client Down) tenant_id req) = Inl (Raised RedisConnectionError)"
    using h by (simp add: chat_def Let_def quota_check_down split: prod.split)
  show "fst (chat_stream a now (Client Down) tenant_id req) = Inl (Raised RedisConnectionError)"
    using h by (simp add: chat_stream_def Let_def quota_check_down split: prod.split)
qed

theorem quota_fail_open_when_unconfigured_witness:
  "startup_event (\<lambda>k. None) (Inr Down) = AttrMissing \<and>
   quota_check EnvUnset ''t1'' 0 AttrMissing = (None, AttrMissing, []) \<and>
   fst (chat demo_app 0 AttrMissing ''t1'' demo_request) =
     Inr (JObj [(''reply'', JStr ''(olama) olama URL not configured'')]) \<and>
   fst (chat_stream demo_app 0 AttrNone ''t1'' demo_request) =
     Inr \<lparr>sr_provider = OlamaProvider None,
          sr_messages =
            [system_msg [\<lparr>document = ''X is a thing.'', metadata = [], distance = 0\<rparr>],
             user_msg ''What is X?'']\<rparr> \<and>
   fst (chat demo_app 0 (Client Down) ''t1'' demo_request) = Inl (Raised RedisConnectionError)"
proof -
  have u: "unset ((\<lambda>k. None) ''REDIS_URL'') \<or> isl (Inr Down :: failure + redis_server)"
    by (simp add: unset_def)
  have s: "startup_event (\<lambda>k. None) (Inr Down) \<noteq> AttrNone"
    by (simp add: startup_event_def unset_def)
  show ?thesis
    using quota_fail_open_when_unconfigured
            [of "\<lambda>k. None" "Inr Down" AttrMissing EnvUnset "''t1''" 0 demo_app demo_request
                "OlamaProvider None"]
          quota_fail_open_when_unconfigured
            [of "\<lambda>k. None" "Inr Down" AttrNone EnvUnset "''t1''" 0 demo_app demo_request
                "OlamaProvider None"]
          u s demo_provider demo_messages
    by (simp add: olama_send_messages_def wrap_str_def unset_def)
qed

text \<open>
  C4 as stated fails: with \<^verbatim>\<open>REDIS_URL\<close> set, the client created and its server
  unreachable, an authenticated request to either endpoint ends with the connection
  error instead of proceeding.
\<close>

theorem counter_store_failure_counterexample:
  "startup_event (\<lambda>k. if k = ''REDIS_URL'' then Some ''redis://cache:6379'' else None)
     (Inr Down) = Client Down \<and>
   fst (post_chat demo_app 0 (Client Down) (Some ''Bearer abc123'') demo_request) =
     Inl (Raised RedisConnectionError) \<and>
   fst (post_chat_stream demo_app 0 (Client Down) (Some ''Bearer abc123'') demo_request) =
     Inl (Raised RedisConnectionError)"
  by (simp add: startup_event_def unset_def post_chat_def post_chat_stream_def demo_auth chat_def
        chat_stream_def demo_provider demo_messages quota_check_down)

section \<open>Quota admission\<close>

lemma bucket_bounds:
  "\<lfloor>t / 60\<rfloor> = b \<Longrightarrow> 60 * real_of_int b \<le> t \<and> t < 60 * real_of_int b + 60" for t :: real
proof -
  assume "\<lfloor>t / 60\<rfloor> = b"
  then have "real_of_int b \<le> t / 60" "t / 60 < real_of_int b + 1"
    by linarith+
  then show ?thesis
    by (simp add: field_simps)
qed

lemma quota_key_bucket: "\<lfloor>t / 60\<rfloor> = b \<Longrightarrow> quota_key tid t = ''quota:'' @ tid @ '':'' @ str_int b"
  by (simp add: quota_key_def)

lemma digit_char_code: "d < 10 \<Longrightarrow> of_char (digit_char d) = 48 + d"
  by (simp add: digit_char_def)

lemma digit_char_inj: "a < 10 \<Longrightarrow> b < 10 \<Longrightarrow> digit_char a = digit_char b \<Longrightarrow> a = b"
  using digit_char_code [of a] digit_char_code [of b] by (metis add_left_cancel)

lemma nat_digits_nonempty: "nat_digits n \<noteq> []"
  by (subst nat_digits.simps) simp

lemma nat_digits_codes: "c \<in> set (nat_digits n) \<Longrightarrow> (48::nat) \<le> of_char c"
proof (induction n rule: nat_digits.induct)
  case (1 n)
  show ?case
  proof (cases "n < 10")
    case True
    then have "nat_digits n = [digit_char n]"
      by (subst nat_digits.simps) simp
    then show ?thesis
      using "1.prems" True digit_char_code [of n] by simp
  next
    case False
    then have e: "nat_digits n = nat_digits (n div 10) @ [digit_char (n mod 10)]"
      by (subst nat_digits.simps) simp
    have "n mod 10 < 10" by simp
    then have "(48::nat) \<le> of_char (digit_char (n mod 10))"
      using digit_char_code [of "n mod 10"] by simp
    then show ?thesis
      using "1.prems" "1.IH" False e by auto
  qed
qed

lemma nat_digits_inj: "nat_digits m = nat_digits n \<Longrightarrow> m = n"
proof (induction m arbitrary: n rule: nat_digits.induct)
  case (1 m)
  show ?case
  proof (cases "m < 10")
    case True
    then have m: "nat_digits m = [digit_char m]"
      by (subst nat_digits.simps) simp
    show ?thesis
    proof (cases "n < 10")
      case n: True
      then have "nat_digits n = [digit_char n]"
        by (subst nat_digits.simps) simp
      then show ?thesis
        using m "1.prems" True n digit_char_inj by simp
    next
      case False
      then have "nat_digits n = nat_digits (n div 10) @ [digit_char (n mod 10)]"
        by (subst nat_digits.simps) simp
      then show ?thesis
        using m "1.prems" nat_digits_nonempty [of "n div 10"] by simp
    qed
  next
    case False
    then have m: "nat_digits m = nat_digits (m div 10) @ [digit_char (m mod 10)]"
      by (subst nat_digits.simps) simp
    show ?thesis
    proof (cases "n < 10")
      case True
      then have "nat_digits n = [digit_char n]"
        by (subst nat_digits.simps) simp
      then show ?thesis
        using m "1.prems" nat_digits_nonempty [of "m div 10"] by simp
    next
      case n: False
      then have "nat_digits n = nat_digits (n div 10) @ [digit_char (n mod 10)]"
        by (subst nat_digits.simps) simp
      then have "nat_digits (m div 10) = nat_digits (n div 10)"
        and d: "digit_char (m mod 10) = digit_char (n mod 10)"
        using m "1.prems" by simp_all
      then have "m div 10 = n div 10"
        using "1.IH" False by simp
      moreover have "m mod 10 = n mod 10"
        using d by (intro digit_char_inj) simp_all
      ultimately show ?thesis
        by (metis div_mult_mod_eq)
    qed
  qed
qed

lemma nat_digits_no_minus: "nat_digits n \<noteq> CHR ''-'' # xs"
proof
  assume "nat_digits n = CHR ''-'' # xs"
  then have "CHR ''-'' \<in> set (nat_digits n)"
    by simp
  then have "(48::nat) \<le> of_char CHR ''-''"
    by (rule nat_digits_codes)
  then show False
    by simp
qed

lemma str_int_inj: "str_int i = str_int j \<Longrightarrow> i = j"
proof -
  assume e: "str_int i = str_int j"
  show ?thesis
  proof (cases "i < 0"; cases "j < 0")
    assume "i < 0" "j < 0"
    then have "nat (- i) = nat (- j)"
      using e nat_digits_inj by (simp add: str_int_def)
    then show ?thesis
      using \<open>i < 0\<close> \<open>j < 0\<close> by simp
  next
    assume "i < 0" "\<not> j < 0"
    then show ?thesis
      using e nat_digits_no_minus [of "nat j" "nat_digits (nat (- i))"] by (simp add: str_int_def)
  next
    assume "\<not> i < 0" "j < 0"
    then show ?thesis
      using e nat_digits_no_minus [of "nat i" "nat_digits (nat (- j))"] by (simp add: str_int_def)
  next
    assume "\<not> i < 0" "\<not> j < 0"
    then have "nat i = nat j"
      using e nat_digits_inj by (simp add: str_int_def)
    then show ?thesis
      using \<open>\<not> i < 0\<close> \<open>\<not> j < 0\<close> by simp
  qed
qed

lemma quota_key_eq_iff:
  "quota_key tid now = quota_key tid now' \<longleftrightarrow> \<lfloor>now / 60\<rfloor> = \<lfloor>now' / 60\<rfloor>"
  using str_int_inj by (auto simp add: quota_key_def)

lemma ceiling_parsed:
  "app_max_reqs a = EnvUnset \<and> m = 600 \<or> app_max_reqs a = EnvInt m \<Longrightarrow>
   max_per_min (app_max_reqs a) = Inr m"
  by (auto simp add: max_per_min_def)

lemma quota_check_first:
  assumes "live_entry db now (quota_key tid now) = None"
    and "max_per_min max_env = Inr m"
  shows "quota_check max_env tid now (Client (Up db)) =
           (if 1 \<le> m then None else Some (HTTPException 429 ''Rate limit exceeded''),
            Client (Up (db(quota_key tid now \<mapsto> \<lparr>r_value = 1, r_expire_at = Some (now + 61)\<rparr>))),
            [RedisIncr (quota_key tid now), RedisExpire (quota_key tid now) 61])"
  using assms
  by (auto simp add: quota_check_def Let_def redis_incr_def redis_expire_def live_entry_def)

lemma quota_check_next:
  assumes "db (quota_key tid now) = Some \<lparr>r_value = c, r_expire_at = Some e\<rparr>"
    and "now < e" and "1 \<le> c" and "c + 1 < 2 ^ 63"
    and "max_per_min max_env = Inr m"
  shows "quota_check max_env tid now (Client (Up db)) =
           (if c + 1 \<le> m then None else Some (HTTPException 429 ''Rate limit exceeded''),
            Client (Up (db(quota_key tid now \<mapsto> \<lparr>r_value = c + 1, r_expire_at = Some e\<rparr>))),
            [RedisIncr (quota_key tid now)])"
  using assms
  by (auto simp add: quota_check_def Let_def redis_incr_def live_entry_def)

lemma quota_check_verdict:
  assumes "max_per_min max_env = Inr m"
  shows "fst (quota_check max_env tid now (Client (Up db))) =
           (case redis_incr now (quota_key tid now) db of
              Inl e \<Rightarrow> Some e
            | Inr (cur, db1) \<Rightarrow>
                if cur \<le> m then None else Some (HTTPException 429 ''Rate limit exceeded''))"
  using assms
  by (auto simp add: quota_check_def Let_def split: prod.split sum.split)

lemma chat_through_quota:
  assumes "get_provider (environ (app_cloud a)) (req_provider req) = Some p"
    and "quota_check (app_max_reqs a) tid now redis = (rej, redis1, evq)"
  shows "chat a now redis tid req =
           ((case rej of
               Some e \<Rightarrow> Inl e
             | None \<Rightarrow>
                 (case send_messages (app_cloud a) p
                         (fst (messages_to_send (app_rag_store a) (req_rag req) (req_messages req))) of
                    Inl e \<Rightarrow> Inl e
                  | Inr reply \<Rightarrow> Inr (JObj [(''reply'', reply)]))),
            redis1, snd (snd (chat a now redis tid req)))"
  using assms
  by (simp add: chat_def Let_def split: prod.split option.split sum.split)

lemma chat_run_later:
  assumes "get_provider (environ (app_cloud a)) (req_provider req) = Some p"
    and "max_per_min (app_max_reqs a) = Inr m"
    and "\<forall>t\<in>set ts. \<lfloor>t / 60\<rfloor> = b"
    and "db (''quota:'' @ tid @ '':'' @ str_int b) = Some \<lparr>r_value = c, r_expire_at = Some e\<rparr>"
    and "1 \<le> c" and "60 * real_of_int b + 60 \<le> e" and "n < length ts"
    and "c + int n + 1 < 2 ^ 63"
  shows "fst (chat_run a tid req (Client (Up db)) ts) ! n =
           (if c + int n + 1 \<le> m
            then (case send_messages (app_cloud a) p
                         (fst (messages_to_send (app_rag_store a) (req_rag req) (req_messages req))) of
                    Inl e \<Rightarrow> Inl e
                  | Inr reply \<Rightarrow> Inr (JObj [(''reply'', reply)]))
            else Inl (HTTPException 429 ''Rate limit exceeded''))"
  using assms(3-8)
proof (induction ts arbitrary: db c n)
  case Nil
  then show ?case by simp
next
  case (Cons t ts)
  let ?K = "''quota:'' @ tid @ '':'' @ str_int b"
  let ?R = "case send_messages (app_cloud a) p
                   (fst (messages_to_send (app_rag_store a) (req_rag req) (req_messages req))) of
              Inl e \<Rightarrow> Inl e
            | Inr reply \<Rightarrow> Inr (JObj [(''reply'', reply)])"
  let ?db = "db(?K \<mapsto> \<lparr>r_value = c + 1, r_expire_at = Some e\<rparr>)"
  from Cons.prems(1) have fl: "\<lfloor>t / 60\<rfloor> = b" by simp
  then have k: "quota_key tid t = ?K"
    by (rule quota_key_bucket)
  from bucket_bounds [OF fl] Cons.prems(4) have lt: "t < e"
    by linarith
  from Cons.prems(6) have small: "c + 1 < 2 ^ 63"
    by linarith
  have q: "quota_check (app_max_reqs a) tid t (Client (Up db)) =
             (if c + 1 \<le> m then None else Some (HTTPException 429 ''Rate limit exceeded''),
              Client (Up ?db), [RedisIncr ?K])"
    using quota_check_next [of db tid t c e "app_max_reqs a" m] Cons.prems(2,3) lt small
      assms(2) k
    by simp
  note c = chat_through_quota [OF assms(1) q]
  obtain rs r2 where run: "chat_run a tid req (Client (Up ?db)) ts = (rs, r2)"
    by (cases "chat_run a tid req (Client (Up ?db)) ts")
  have res: "fst (chat_run a tid req (Client (Up db)) (t # ts)) =
               (if c + 1 \<le> m then ?R else Inl (HTTPException 429 ''Rate limit exceeded'')) # rs"
    by (subst chat_run.simps, subst c) (use run in simp)
  show ?case
  proof (cases n)
    case 0
    then show ?thesis using res by simp
  next
    case (Suc n')
    have "fst (chat_run a tid req (Client (Up ?db)) ts) ! n' =
            (if (c + 1) + int n' + 1 \<le> m then ?R
             else Inl (HTTPException 429 ''Rate limit exceeded''))"
      using Cons.prems Suc by (intro Cons.IH) simp_all
    then show ?thesis
      using res run Suc by (simp add: add.commute add.left_commute)
  qed
qed

lemma chat_run_bucket:
  assumes "get_provider (environ (app_cloud a)) (req_provider req) = Some p"
    and "max_per_min (app_max_reqs a) = Inr m"
    and "\<forall>t\<in>set ts. \<lfloor>t / 60\<rfloor> = b"
    and "live_entry db (hd ts) (''quota:'' @ tid @ '':'' @ str_int b) = None"
    and "n < length ts" and "int n + 1 < 2 ^ 63"
  shows "fst (chat_run a tid req (Client (Up db)) ts) ! n =
           (if int n + 1 \<le> m
            then (case send_messages (app_cloud a) p
                         (fst (messages_to_send (app_rag_store a) (req_rag req) (req_messages req))) of
                    Inl e \<Rightarrow> Inl e
                  | Inr reply \<Rightarrow> Inr (JObj [(''reply'', reply)]))
            else Inl (HTTPException 429 ''Rate limit exceeded''))"
proof (cases ts)
  case Nil
  then show ?thesis using assms(5) by simp
next
  case (Cons t ts')
  let ?K = "''quota:'' @ tid @ '':'' @ str_int b"
  let ?R = "case send_messages (app_cloud a) p
                   (fst (messages_to_send (app_rag_store a) (req_rag req) (req_messages req))) of
              Inl e \<Rightarrow> Inl e
            | Inr reply \<Rightarrow> Inr (JObj [(''reply'', reply)])"
  let ?db = "db(?K \<mapsto> \<lparr>r_value = 1, r_expire_at = Some (t + 61)\<rparr>)"
  from assms(3) Cons have fl: "\<lfloor>t / 60\<rfloor> = b" by simp
  then have k: "quota_key tid t = ?K"
    by (rule quota_key_bucket)
  have q: "quota_check (app_max_reqs a) tid t (Client (Up db)) =
             (if 1 \<le> m then None else Some (HTTPException 429 ''Rate limit exceeded''),
              Client (Up ?db), [RedisIncr ?K, RedisExpire ?K 61])"
    using quota_check_first [of db t tid "app_max_reqs a" m] assms(2,4) Cons k by simp
  note c = chat_through_quota [OF assms(1) q]
  obtain rs r2 where run: "chat_run a tid req (Client (Up ?db)) ts' = (rs, r2)"
    by (cases "chat_run a tid req (Client (Up ?db)) ts'")
  have res: "fst (chat_run a tid req (Client (Up db)) (t # ts')) =
               (if 1 \<le> m then ?R else Inl (HTTPException 429 ''Rate limit exceeded'')) # rs"
    by (subst chat_run.simps, subst c) (use run in simp)
  show ?thesis
  proof (cases n)
    case 0
    then show ?thesis using res Cons by simp
  next
    case (Suc n')
    have e: "60 * real_of_int b + 60 \<le> t + 61"
      using bucket_bounds [OF fl] by linarith
    have "fst (chat_run a tid req (Client (Up ?db)) ts') ! n' =
            (if 1 + int n' + 1 \<le> m then ?R
             else Inl (HTTPException 429 ''Rate limit exceeded''))"
      using assms(3,5,6) Cons Suc e
      by (intro chat_run_later [OF assms(1,2), where b = b and e = "t + 61"]) simp_all
    then show ?thesis
      using res run Suc Cons by (simp add: add.commute add.left_commute)
  qed
qed

lemma chat_run_no_store:
  assumes "get_provider (environ (app_cloud a)) (req_provider req) = Some p"
    and "redis = AttrMissing \<or> redis = AttrNone"
    and "n < length ts"
  shows "fst (chat_run a tid req redis ts) ! n =
           (case send_messages (app_cloud a) p
                   (fst (messages_to_send (app_rag_store a) (req_rag req) (req_messages req))) of
              Inl e \<Rightarrow> Inl e
            | Inr reply \<Rightarrow> Inr (JObj [(''reply'', reply)]))"
  using assms(3)
proof (induction ts arbitrary: n)
  case Nil
  then show ?case by simp
next
  case (Cons t ts)
  have q: "quota_check (app_max_reqs a) tid t redis = (None, redis, [])"
    using assms(2) by (rule quota_check_unconfigured)
  note c = chat_through_quota [OF assms(1) q]
  obtain rs r2 where run: "chat_run a tid req redis ts = (rs, r2)"
    by (cases "chat_run a tid req redis ts")
  have res: "fst (chat_run a tid req redis (t # ts)) =
               (case send_messages (app_cloud a) p
                       (fst (messages_to_send (app_rag_store a) (req_rag req) (req_messages req))) of
                  Inl e \<Rightarrow> Inl e
                | Inr reply \<Rightarrow> Inr (JObj [(''reply'', reply)])) # rs"
    by (subst chat_run.simps, subst c) (use run in simp)
  show ?case
  proof (cases n)
    case 0
    then show ?thesis using res by simp
  next
    case (Suc n')
    then show ?thesis
      using res run Cons.IH [of n'] Cons.prems by simp
  qed
qed

text \<open>
  C3, as amended. For an authenticated request to \<^verbatim>\<open>/chat\<close> or \<^verbatim>\<open>/chat/stream\<close>
  whose provider resolves, with a counter store client in place whose server answers, and
  with the ceiling \<open>m\<close> the configuration gives (the integer \<^verbatim>\<open>MAX_REQS_PER_MIN\<close>
  denotes when it is set, 600 when it is unset): the handler increments the counter of the
  key of the tenant and the minute bucket, and admits the request, which then gets what
  the provider returns, if and only if the value after the increment is at most \<open>m\<close>;
  otherwise it rejects with status 429; an increment the store refuses fails the request
  with the store's error. The first increment of a key sets its expiry to 61 seconds from
  now, and later increments keep that expiry. For requests whose clock readings fall into
  one 60-second bucket, starting from a store without the bucket's key, request number
  \<open>n + 1\<close> is admitted if and only if \<open>n + 1 \<le> m\<close>: with the default ceiling request
  number 600 is admitted and request number 601 is rejected. Two clock readings give the
  same key for a tenant exactly when they fall into the same bucket.
\<close>

theorem quota_admission:
  assumes "get_provider (environ (app_cloud a)) (req_provider req) = Some p"
    and "app_max_reqs a = EnvUnset \<and> m = 600 \<or> app_max_reqs a = EnvInt m"
  shows
    "fst (chat a now (Client (Up db)) tenant_id req) =
       (case redis_incr now (quota_key tenant_id now) db of
          Inl e \<Rightarrow> Inl e
        | Inr (cur, db1) \<Rightarrow>
            if cur \<le> m
            then (case send_messages (app_cloud a) p
                         (fst (messages_to_send (app_rag_store a) (req_rag req) (req_messages req))) of
                    Inl e \<Rightarrow> Inl e
                  | Inr reply \<Rightarrow> Inr (JObj [(''reply'', reply)]))
            else Inl (HTTPException 429 ''Rate limit exceeded'')) \<and>
     fst (chat_stream a now (Client (Up db)) tenant_id req) =
       (case redis_incr now (quota_key tenant_id now) db of
          Inl e \<Rightarrow> Inl e
        | Inr (cur, db1) \<Rightarrow>
            if cur \<le> m
            then Inr \<lparr>sr_provider = p,
                      sr_messages =
                        fst (messages_to_send (app_rag_store a) (req_rag req) (req_messages req))\<rparr>
            else Inl (HTTPException 429 ''Rate limit exceeded'')) \<and>
     (live_entry db now (quota_key tenant_id now) = None \<longrightarrow>
        fst (snd (chat a now (Client (Up db)) tenant_id req)) =
          Client (Up (db(quota_key tenant_id now \<mapsto>
                           \<lparr>r_value = 1, r_expire_at = Some (now + 61)\<rparr>))) \<and>
        fst (snd (chat_stream a now (Client (Up db)) tenant_id req)) =
          Client (Up (db(quota_key tenant_id now \<mapsto>
                           \<lparr>r_value = 1, r_expire_at = Some (now + 61)\<rparr>)))) \<and>
     (db (quota_key tenant_id now) = Some \<lparr>r_value = c, r_expire_at = Some e\<rparr> \<and>
      now < e \<and> 1 \<le> c \<and> c + 1 < 2 ^ 63 \<longrightarrow>
        fst (snd (chat a now (Client (Up db)) tenant_id req)) =
          Client (Up (db(quota_key tenant_id now \<mapsto>
                           \<lparr>r_value = c + 1, r_expire_at = Some e\<rparr>)))) \<and>
     ((\<forall>t\<in>set nows. \<lfloor>t / 60\<rfloor> = b) \<and>
      live_entry db (hd nows) (''quota:'' @ tenant_id @ '':'' @ str_int b) = None \<and>
      n < length nows \<and> int n + 1 < 2 ^ 63 \<longrightarrow>
        fst (chat_run a tenant_id req (Client (Up db)) nows) ! n =
          (if int n + 1 \<le> m
           then (case send_messages (app_cloud a) p
                        (fst (messages_to_send (app_rag_store a) (req_rag req) (req_messages req))) of
                   Inl e \<Rightarrow> Inl e
                 | Inr reply \<Rightarrow> Inr (JObj [(''reply'', reply)]))
           else Inl (HTTPException 429 ''Rate limit exceeded''))) \<and>
     (quota_key tenant_id now = quota_key tenant_id now' \<longleftrightarrow> \<lfloor>now / 60\<rfloor> = \<lfloor>now' / 60\<rfloor>)"
proof (intro conjI impI)
  note m = ceiling_parsed [OF assms(2)]
  note v = quota_check_verdict [OF m, of tenant_id now db]
  show "fst (chat a now (Client (Up db)) tenant_id req) =
       (case redis_incr now (quota_key tenant_id now) db of
          Inl e \<Rightarrow> Inl e
        | Inr (cur, db1) \<Rightarrow>
            if cur \<le> m
            then (case send_messages (app_cloud a) p
                         (fst (messages_to_send (app_rag_store a) (req_rag req) (req_messages req))) of
                    Inl e \<Rightarrow> Inl e
                  | Inr reply \<Rightarrow> Inr (JObj [(''reply'', reply)]))
            else Inl (HTTPException 429 ''Rate limit exceeded''))"
    by (subst chat_known_provider [OF assms(1)]) (simp add: v split: sum.split prod.split)
  show "fst (chat_stream a now (Client (Up db)) tenant_id req) =
       (case redis_incr now (quota_key tenant_id now) db of
          Inl e \<Rightarrow> Inl e
        | Inr (cur, db1) \<Rightarrow>
            if cur \<le> m
            then Inr \<lparr>sr_provider = p,
                      sr_messages =
                        fst (messages_to_send (app_rag_store a) (req_rag req) (req_messages req))\<rparr>
            else Inl (HTTPException 429 ''Rate limit exceeded''))"
    by (subst chat_stream_known_provider [OF assms(1)]) (simp add: v split: sum.split prod.split)
next
  note m = ceiling_parsed [OF assms(2)]
  assume f: "live_entry db now (quota_key tenant_id now) = None"
  show "fst (snd (chat a now (Client (Up db)) tenant_id req)) =
          Client (Up (db(quota_key tenant_id now \<mapsto>
                           \<lparr>r_value = 1, r_expire_at = Some (now + 61)\<rparr>)))"
    by (subst chat_known_provider [OF assms(1)]) (simp add: quota_check_first [OF f m])
  show "fst (snd (chat_stream a now (Client (Up db)) tenant_id req)) =
          Client (Up (db(quota_key tenant_id now \<mapsto>
                           \<lparr>r_value = 1, r_expire_at = Some (now + 61)\<rparr>)))"
    by (subst chat_stream_known_provider [OF assms(1)]) (simp add: quota_check_first [OF f m])
next
  note m = ceiling_parsed [OF assms(2)]
  assume h: "db (quota_key tenant_id now) = Some \<lparr>r_value = c, r_expire_at = Some e\<rparr> \<and>
      now < e \<and> 1 \<le> c \<and> c + 1 < 2 ^ 63"
  then have q: "quota_check (app_max_reqs a) tenant_id now (Client (Up db)) =
           (if c + 1 \<le> m then None else Some (HTTPException 429 ''Rate limit exceeded''),
            Client (Up (db(quota_key tenant_id now \<mapsto> \<lparr>r_value = c + 1, r_expire_at = Some e\<rparr>))),
            [RedisIncr (quota_key tenant_id now)])"
    using m by (intro quota_check_next) simp_all
  show "fst (snd (chat a now (Client (Up db)) tenant_id req)) =
          Client (Up (db(quota_key tenant_id now \<mapsto>
                           \<lparr>r_value = c + 1, r_expire_at = Some e\<rparr>)))"
    by (subst chat_known_provider [OF assms(1)]) (simp add: q)
next
  note m = ceiling_parsed [OF assms(2)]
  assume "(\<forall>t\<in>set nows. \<lfloor>t / 60\<rfloor> = b) \<and>
      live_entry db (hd nows) (''quota:'' @ tenant_id @ '':'' @ str_int b) = None \<and>
      n < length nows \<and> int n + 1 < 2 ^ 63"
  then show "fst (chat_run a tenant_id req (Client (Up db)) nows) ! n =
          (if int n + 1 \<le> m
           then (case send_messages (app_cloud a) p
                        (fst (messages_to_send (app_rag_store a) (req_rag req) (req_messages req))) of
                   Inl e \<Rightarrow> Inl e
                 | Inr reply \<Rightarrow> Inr (JObj [(''reply'', reply)]))
           else Inl (HTTPException 429 ''Rate limit exceeded''))"
    using chat_run_bucket [OF assms(1) m, of nows b db tenant_id n] by simp
next
  show "quota_key tenant_id now = quota_key tenant_id now' \<longleftrightarrow> \<lfloor>now / 60\<rfloor> = \<lfloor>now' / 60\<rfloor>"
    by (rule quota_key_eq_iff)
qed

theorem quota_admission_witness:
  "fst (chat_run demo_app ''t1'' demo_request (Client (Up Map.empty)) (replicate 601 0)) ! 599 =
     Inr (JObj [(''reply'', JStr ''(olama) olama URL not configured'')]) \<and>
   fst (chat_run demo_app ''t1'' demo_request (Client (Up Map.empty)) (replicate 601 0)) ! 600 =
     Inl (HTTPException 429 ''Rate limit exceeded'') \<and>
   fst (chat_run (demo_app\<lparr>app_max_reqs := EnvInt 2\<rparr>) ''t1'' demo_request (Client (Up Map.empty))
          (replicate 3 0)) ! 1 =
     Inr (JObj [(''reply'', JStr ''(olama) olama URL not configured'')]) \<and>
   fst (chat_run (demo_app\<lparr>app_max_reqs := EnvInt 2\<rparr>) ''t1'' demo_request (Client (Up Map.empty))
          (replicate 3 0)) ! 2 =
     Inl (HTTPException 429 ''Rate limit exceeded'') \<and>
   fst (snd (chat demo_app 0 (Client (Up Map.empty)) ''t1'' demo_request)) =
     Client (Up (Map.empty(''quota:t1:0'' \<mapsto> \<lparr>r_value = 1, r_expire_at = Some 61\<rparr>))) \<and>
   fst (snd (chat demo_app 30
               (Client (Up (Map.empty(''quota:t1:0'' \<mapsto> \<lparr>r_value = 1, r_expire_at = Some 61\<rparr>))))
               ''t1'' demo_request)) =
     Client (Up (Map.empty(''quota:t1:0'' \<mapsto> \<lparr>r_value = 2, r_expire_at = Some 61\<rparr>)))"
proof -
  have m: "app_max_reqs demo_app = EnvUnset \<and> (600::int) = 600 \<or> app_max_reqs demo_app = EnvInt 600"
    by (simp add: demo_max)
  have m2: "app_max_reqs (demo_app\<lparr>app_max_reqs := EnvInt 2\<rparr>) = EnvUnset \<and> (2::int) = 600 \<or>
            app_max_reqs (demo_app\<lparr>app_max_reqs := EnvInt 2\<rparr>) = EnvInt 2"
    by simp
  have p2: "get_provider (environ (app_cloud (demo_app\<lparr>app_max_reqs := EnvInt 2\<rparr>)))
              (req_provider demo_request) = Some (OlamaProvider None)"
    using demo_provider by simp
  have l: "live_entry Map.empty t k = None" for t k
    by (simp add: live_entry_def)
  have h: "(\<forall>t\<in>set (replicate 601 (0::real)). \<lfloor>t / 60\<rfloor> = 0) \<and>
           live_entry Map.empty (hd (replicate 601 (0::real))) (''quota:'' @ ''t1'' @ '':'' @ str_int 0) = None"
    by (simp add: l)
  have h3: "(\<forall>t\<in>set (replicate 3 (0::real)). \<lfloor>t / 60\<rfloor> = 0) \<and>
           live_entry Map.empty (hd (replicate 3 (0::real))) (''quota:'' @ ''t1'' @ '':'' @ str_int 0) = None"
    by (simp add: l)
  have k30: "quota_key ''t1'' 30 = ''quota:t1:0''"
    by (simp add: quota_key_def str_int_0)
  have a: "fst (chat_run demo_app ''t1'' demo_request (Client (Up Map.empty)) (replicate 601 0)) ! 599 =
             Inr (JObj [(''reply'', JStr ''(olama) olama URL not configured'')])"
    using quota_admission [OF demo_provider m, of 0 Map.empty "''t1''" 0 0 "replicate 601 0" 0 599] h
    by (simp add: olama_send_messages_def wrap_str_def unset_def)
  have b: "fst (chat_run demo_app ''t1'' demo_request (Client (Up Map.empty)) (replicate 601 0)) ! 600 =
             Inl (HTTPException 429 ''Rate limit exceeded'')"
    using quota_admission [OF demo_provider m, of 0 Map.empty "''t1''" 0 0 "replicate 601 0" 0 600] h
    by simp
  have a2: "fst (chat_run (demo_app\<lparr>app_max_reqs := EnvInt 2\<rparr>) ''t1'' demo_request
                   (Client (Up Map.empty)) (replicate 3 0)) ! 1 =
             Inr (JObj [(''reply'', JStr ''(olama) olama URL not configured'')])"
    using quota_admission [OF p2 m2, of 0 Map.empty "''t1''" 0 0 "replicate 3 0" 0 1] h3
    by (simp add: olama_send_messages_def wrap_str_def unset_def)
  have b2: "fst (chat_run (demo_app\<lparr>app_max_reqs := EnvInt 2\<rparr>) ''t1'' demo_request
                   (Client (Up Map.empty)) (replicate 3 0)) ! 2 =
             Inl (HTTPException 429 ''Rate limit exceeded'')"
    using quota_admission [OF p2 m2, of 0 Map.empty "''t1''" 0 0 "replicate 3 0" 0 2] h3
    by simp
  have c: "fst (snd (chat demo_app 0 (Client (Up Map.empty)) ''t1'' demo_request)) =
             Client (Up (Map.empty(''quota:t1:0'' \<mapsto> \<lparr>r_value = 1, r_expire_at = Some 61\<rparr>)))"
    using quota_admission [OF demo_provider m, of 0 Map.empty "''t1''" 0 0 "[]" 0 0] l
    by (simp add: quota_key_0)
  have d: "fst (snd (chat demo_app 30
               (Client (Up (Map.empty(''quota:t1:0'' \<mapsto> \<lparr>r_value = 1, r_expire_at = Some 61\<rparr>))))
               ''t1'' demo_request)) =
     Client (Up (Map.empty(''quota:t1:0'' \<mapsto> \<lparr>r_value = 2, r_expire_at = Some 61\<rparr>)))"
    using quota_admission
            [OF demo_provider m, of 30
                "Map.empty(''quota:t1:0'' \<mapsto> \<lparr>r_value = 1, r_expire_at = Some 61\<rparr>)"
                "''t1''" 1 61 "[]" 0 0]
    by (simp add: k30)
  show ?thesis
    using a b a2 b2 c d by simp
qed

text \<open>
  C3 as stated, for every authenticated request, fails: with no counter store in place
  (\<^verbatim>\<open>REDIS_URL\<close> unset) request number 601 of a bucket is admitted like the 600
  before it, and a request that names an unknown provider is rejected with status 400
  before any counter is incremented.
\<close>

theorem quota_without_store_counterexample:
  "fst (chat_run demo_app ''t1'' demo_request AttrMissing (replicate 601 0)) ! 600 =
     Inr (JObj [(''reply'', JStr ''(olama) olama URL not configured'')]) \<and>
   chat demo_app 0 (Client (Up Map.empty)) ''t1'' (demo_request\<lparr>req_provider := ''made-up''\<rparr>) =
     (Inl (HTTPException 400 ''Unknown provider''), Client (Up Map.empty),
      [GetProvider ''made-up''])"
proof -
  have "fst (chat_run demo_app ''t1'' demo_request AttrMissing (replicate 601 0)) ! 600 =
          Inr (JObj [(''reply'', JStr ''(olama) olama URL not configured'')])"
    using chat_run_no_store [OF demo_provider, of AttrMissing 600 "replicate 601 0" "''t1''"]
    by (simp add: olama_send_messages_def wrap_str_def unset_def)
  moreover have "chat demo_app 0 (Client (Up Map.empty)) ''t1''
                   (demo_request\<lparr>req_provider := ''made-up''\<rparr>) =
     (Inl (HTTPException 400 ''Unknown provider''), Client (Up Map.empty),
      [GetProvider ''made-up''])"
    by (simp add: chat_def get_provider_def lower_made_up)
  ultimately show ?thesis
    by simp
qed

section \<open>Receipts of the indexing queue\<close>

lemma length_default_ids: "length (default_ids texts) = length texts"
  by (simp add: default_ids_def)

lemma upsert_receipt:
  assumes "use_pinecone vm"
    and "case ids of None \<Rightarrow> True | Some is \<Rightarrow> length is \<le> length texts"
  shows "fst (upsert_documents vm pc texts ids tenant_id) =
           Inr [(''upserted'',
                 JNum (int (case ids of None \<Rightarrow> length texts | Some is \<Rightarrow> length is))),
                (''provider'', JStr ''pinecone'')]"
  using assms
  by (cases ids) (simp_all add: upsert_documents_def Let_def length_default_ids)

text \<open>
  C8, as amended. The two paths of \<^verbatim>\<open>enqueue_documents\<close> return receipts of different
  shapes. With a queue configured (\<^verbatim>\<open>REDIS_URL\<close> set) and the push schedulable, the
  call returns at once the receipt \<^verbatim>\<open>{'enqueued': n}\<close>, \<open>n\<close> the number of
  identifiers of the task, leaves the vector store alone and schedules the push of the
  task; the upsert happens afterwards: once the push has run and the worker takes the task
  from the queue, the worker makes the call \<^verbatim>\<open>upsert_documents\<close> with the task's texts,
  identifiers and tenant. With no queue configured, or when the push cannot be scheduled,
  the call makes the upsert in-line and returns the outcome of \<^verbatim>\<open>upsert_documents\<close> as
  it is, with the store that call leaves; with Pinecone in use and no more identifiers
  than texts, that outcome is the receipt \<^verbatim>\<open>{'upserted': n, 'provider': 'pinecone'}\<close>.
\<close>

theorem enqueue_receipts:
  "(\<not> unset (env ''REDIS_URL'') \<and> loop_running \<longrightarrow>
      fst (enqueue_documents vm env loop_running pc scheduled texts ids tenant_id) =
        Inr [(''enqueued'',
              JNum (int (case ids of
                           None \<Rightarrow> length texts
                         | Some is \<Rightarrow> if is = [] then length texts else length is)))] \<and>
      fst (snd (enqueue_documents vm env loop_running pc scheduled texts ids tenant_id)) = pc \<and>
      snd (snd (enqueue_documents vm env loop_running pc scheduled texts ids tenant_id)) =
        scheduled @
        [\<lparr>task_texts = texts,
          task_ids = (case ids of
                        None \<Rightarrow> default_ids texts
                      | Some is \<Rightarrow> if is = [] then default_ids texts else is),
          task_tenant_id = tenant_id\<rparr>] \<and>
      worker_round vm
        (fst (snd (enqueue_documents vm env loop_running pc [] texts ids tenant_id)))
        (snd (run_push (snd (snd (enqueue_documents vm env loop_running pc [] texts ids tenant_id)))
                [])) =
        (snd (upsert_documents vm pc texts
                (Some (case ids of
                         None \<Rightarrow> default_ids texts
                       | Some is \<Rightarrow> if is = [] then default_ids texts else is))
                tenant_id),
         [])) \<and>
   (unset (env ''REDIS_URL'') \<or> \<not> loop_running \<longrightarrow>
      enqueue_documents vm env loop_running pc scheduled texts ids tenant_id =
        (fst (upsert_documents vm pc texts ids tenant_id),
         snd (upsert_documents vm pc texts ids tenant_id), scheduled)) \<and>
   ((unset (env ''REDIS_URL'') \<or> \<not> loop_running) \<and> use_pinecone vm \<and>
    (case ids of None \<Rightarrow> True | Some is \<Rightarrow> length is \<le> length texts) \<longrightarrow>
      fst (enqueue_documents vm env loop_running pc scheduled texts ids tenant_id) =
        Inr [(''upserted'',
              JNum (int (case ids of None \<Rightarrow> length texts | Some is \<Rightarrow> length is))),
             (''provider'', JStr ''pinecone'')])"
proof (intro conjI impI)
  assume h: "\<not> unset (env ''REDIS_URL'') \<and> loop_running"
  show "fst (enqueue_documents vm env loop_running pc scheduled texts ids tenant_id) =
        Inr [(''enqueued'',
              JNum (int (case ids of
                           None \<Rightarrow> length texts
                         | Some is \<Rightarrow> if is = [] then length texts else length is)))]"
    using h by (simp add: enqueue_documents_def length_default_ids split: option.split)
  show "fst (snd (enqueue_documents vm env loop_running pc scheduled texts ids tenant_id)) = pc"
    using h by (simp add: enqueue_documents_def)
  show "snd (snd (enqueue_documents vm env loop_running pc scheduled texts ids tenant_id)) =
        scheduled @
        [\<lparr>task_texts = texts,
          task_ids = (case ids of
                        None \<Rightarrow> default_ids texts
                      | Some is \<Rightarrow> if is = [] then default_ids texts else is),
          task_tenant_id = tenant_id\<rparr>]"
    using h by (simp add: enqueue_documents_def)
  show "worker_round vm
        (fst (snd (enqueue_documents vm env loop_running pc [] texts ids tenant_id)))
        (snd (run_push (snd (snd (enqueue_documents vm env loop_running pc [] texts ids tenant_id)))
                [])) =
        (snd (upsert_documents vm pc texts
                (Some (case ids of
                         None \<Rightarrow> default_ids texts
                       | Some is \<Rightarrow> if is = [] then default_ids texts else is))
                tenant_id),
         [])"
    using h by (simp add: enqueue_documents_def)
next
  assume "unset (env ''REDIS_URL'') \<or> \<not> loop_running"
  then show "enqueue_documents vm env loop_running pc scheduled texts ids tenant_id =
        (fst (upsert_documents vm pc texts ids tenant_id),
         snd (upsert_documents vm pc texts ids tenant_id), scheduled)"
    by (auto simp add: enqueue_documents_def Let_def split: prod.split)
next
  assume h: "(unset (env ''REDIS_URL'') \<or> \<not> loop_running) \<and> use_pinecone vm \<and>
    (case ids of None \<Rightarrow> True | Some is \<Rightarrow> length is \<le> length texts)"
  then have "fst (enqueue_documents vm env loop_running pc scheduled texts ids tenant_id) =
               fst (upsert_documents vm pc texts ids tenant_id)"
    by (auto simp add: enqueue_documents_def Let_def split: prod.split)
  moreover from h have u: "use_pinecone vm"
    and l: "case ids of None \<Rightarrow> True | Some is \<Rightarrow> length is \<le> length texts"
    by simp_all
  ultimately show "fst (enqueue_documents vm env loop_running pc scheduled texts ids tenant_id) =
        Inr [(''upserted'',
              JNum (int (case ids of None \<Rightarrow> length texts | Some is \<Rightarrow> length is))),
             (''provider'', JStr ''pinecone'')]"
    using upsert_receipt [OF u l] by simp
qed

lemma demo_upsert:
  "fst (upsert_documents (demo_vectors True) Map.empty [''a''] (Some [''d1'']) (Some ''t1'')) =
     Inr [(''upserted'', JNum 1), (''provider'', JStr ''pinecone'')]"
  by (simp add: upsert_documents_def demo_vectors_def)

theorem enqueue_receipts_witness:
  "fst (enqueue_documents (demo_vectors True) queue_environ True Map.empty []
          [''a''] (Some [''d1'']) (Some ''t1'')) = Inr [(''enqueued'', JNum 1)] \<and>
   snd (enqueue_documents (demo_vectors True) queue_environ True Map.empty []
          [''a''] (Some [''d1'']) (Some ''t1'')) =
     (Map.empty, [\<lparr>task_texts = [''a''], task_ids = [''d1''], task_tenant_id = Some ''t1''\<rparr>]) \<and>
   worker_round (demo_vectors True) Map.empty
     [\<lparr>task_texts = [''a''], task_ids = [''d1''], task_tenant_id = Some ''t1''\<rparr>] =
     (snd (upsert_documents (demo_vectors True) Map.empty [''a''] (Some [''d1'']) (Some ''t1'')),
      []) \<and>
   fst (enqueue_documents (demo_vectors True) queue_environ False Map.empty []
          [''a''] (Some [''d1'']) (Some ''t1'')) =
     Inr [(''upserted'', JNum 1), (''provider'', JStr ''pinecone'')] \<and>
   snd (enqueue_documents (demo_vectors True) queue_environ False Map.empty []
          [''a''] (Some [''d1'']) (Some ''t1'')) =
     (snd (upsert_documents (demo_vectors True) Map.empty [''a''] (Some [''d1'']) (Some ''t1'')),
      [])"
proof -
  have q: "\<not> unset (queue_environ ''REDIS_URL'')"
    by (simp add: queue_environ_def unset_def)
  have u: "use_pinecone (demo_vectors True)"
    by (simp add: demo_vectors_def)
  note on = enqueue_receipts
            [of queue_environ True "demo_vectors True" Map.empty "[]" "[''a'']" "Some [''d1'']"
                "Some ''t1''"]
  note off = enqueue_receipts
            [of queue_environ False "demo_vectors True" Map.empty "[]" "[''a'']" "Some [''d1'']"
                "Some ''t1''"]
  have a: "fst (enqueue_documents (demo_vectors True) queue_environ True Map.empty []
          [''a''] (Some [''d1'']) (Some ''t1'')) = Inr [(''enqueued'', JNum 1)]"
    using on q by simp
  have b: "snd (enqueue_documents (demo_vectors True) queue_environ True Map.empty []
          [''a''] (Some [''d1'']) (Some ''t1'')) =
     (Map.empty, [\<lparr>task_texts = [''a''], task_ids = [''d1''], task_tenant_id = Some ''t1''\<rparr>])"
    using on q by (simp add: prod_eq_iff)
  have c: "worker_round (demo_vectors True) Map.empty
     [\<lparr>task_texts = [''a''], task_ids = [''d1''], task_tenant_id = Some ''t1''\<rparr>] =
     (snd (upsert_documents (demo_vectors True) Map.empty [''a''] (Some [''d1'']) (Some ''t1'')),
      [])"
    using on q b by simp
  have d: "fst (enqueue_documents (demo_vectors True) queue_environ False Map.empty []
          [''a''] (Some [''d1'']) (Some ''t1'')) =
     Inr [(''upserted'', JNum 1), (''provider'', JStr ''pinecone'')]"
    using off u demo_upsert by simp
  have e: "snd (enqueue_documents (demo_vectors True) queue_environ False Map.empty []
          [''a''] (Some [''d1'']) (Some ''t1'')) =
     (snd (upsert_documents (demo_vectors True) Map.empty [''a''] (Some [''d1'']) (Some ''t1'')),
      [])"
    using off by simp
  show ?thesis
    using a b c d e by simp
qed

text \<open>
  C8 as stated fails: for the same documents the receipt of the queue path and the
  receipt of the in-line path have different keys, so a caller can tell the paths apart.
\<close>

theorem receipt_shapes_differ_counterexample:
  "fst (enqueue_documents (demo_vectors True) queue_environ True Map.empty []
          [''a''] (Some [''d1'']) (Some ''t1'')) = Inr [(''enqueued'', JNum 1)] \<and>
   fst (enqueue_documents (demo_vectors True) (\<lambda>k. None) True Map.empty []
          [''a''] (Some [''d1'']) (Some ''t1'')) =
     Inr [(''upserted'', JNum 1), (''provider'', JStr ''pinecone'')]"
  using demo_upsert
  by (auto simp add: enqueue_documents_def queue_environ_def unset_def split: prod.split)

section \<open>The upsert without the primary backend\<close>

text \<open>
  C9 does not hold of the code. With no Pinecone variables in the environment the module
  loads without Pinecone and with Chroma available, and an upsert of one document raises
  UnboundLocalError: \<^verbatim>\<open>idx.upsert(to_upsert)\<close> and the \<^verbatim>\<open>return\<close> after it stand
  outside the \<^verbatim>\<open>if _use_pinecone:\<close> block, so the Chroma branch is never reached.
\<close>

theorem upsert_without_pinecone_raises:
  "use_pinecone (load_vector_store (\<lambda>k. None) True True (\<lambda>t. [real (length t)])) = False \<and>
   chroma_client (load_vector_store (\<lambda>k. None) True True (\<lambda>t. [real (length t)])) = True \<and>
   fst (upsert_documents (load_vector_store (\<lambda>k. None) True True (\<lambda>t. [real (length t)]))
          Map.empty [''a''] (Some [''d1'']) (Some ''t1'')) = Inl (Raised UnboundLocalError)"
  by (simp add: load_vector_store_def unset_def upsert_documents_def)

section \<open>Retrieval across tenants\<close>

text \<open>
  The tenant-aware query of \<^verbatim>\<open>vector_store\<close> keeps to one tenant: every hit it returns
  for a tenant carries that tenant's identifier in its metadata.
\<close>

lemma vector_store_query_scoped:
  assumes "vector_store_query vm pc ps chroma text k (Some t) = Inr hits" and "t \<noteq> []"
  shows "list_all (\<lambda>h. map_of (hit_metadata h) ''tenant_id'' = Some (JStr t)) hits"
  using assms
  by (auto simp add: vector_store_query_def other_tenant_def unset_def tenant_json_def zip3_def
        list_all_iff split: if_splits option.splits sum.splits)

text \<open>
  C1 does not hold of the code. A document indexed with the metadata of tenant
  \<^verbatim>\<open>t2\<close> is in the collection; a request authenticated as tenant \<^verbatim>\<open>t1\<close>, with
  retrieval enabled, makes the retrieval query with the text and the top-k only, gets
  that document, and sends its text to the provider in the system message. The
  tenant-aware query of \<^verbatim>\<open>vector_store\<close>, which the handler does not call, returns
  nothing for \<^verbatim>\<open>t1\<close> on the same collection.
\<close>

theorem other_tenant_document_retrieved:
  "snd (index_texts empty_store [''T2 internal memo''] (Some [''d1''])
          (Some [[(''tenant_id'', JStr ''t2'')]])) = demo_store [doc_t2] \<and>
   fst (get_tenant_from_header (app_verify_api_key demo_app) (Some ''Bearer abc123'')) =
     Inr ''t1'' \<and>
   rag_query (demo_store [doc_t2]) (JStr ''What is X?'') 3 =
     Inr [\<lparr>document = ''T2 internal memo'', metadata = [(''tenant_id'', JStr ''t2'')],
           distance = 0\<rparr>] \<and>
   snd (snd (post_chat (demo_app\<lparr>app_rag_store := demo_store [doc_t2]\<rparr>) 0 AttrMissing
               (Some ''Bearer abc123'') demo_request)) =
     [VerifyApiKey ''abc123'', GetProvider ''olama'', RagQuery (JStr ''What is X?'') 3,
      SendMessages
        [JObj [(''role'', JStr ''system''),
               (''content'', JStr (''Relevant documents:'' @ [newline] @ ''T2 internal memo''))],
         JObj [(''role'', JStr ''user''), (''content'', JStr ''What is X?'')]]] \<and>
   vector_store_query (demo_vectors False) Map.empty (\<lambda>ix v k. []) (demo_store [doc_t2])
     ''What is X?'' 3 (Some ''t1'') = Inr []"
proof -
  have v: "vector_store_query (demo_vectors False) Map.empty (\<lambda>ix v k. []) (demo_store [doc_t2])
             ''What is X?'' 3 (Some ''t1'') = Inr []"
    by (simp add: vector_store_query_def demo_vectors_def demo_store_def first_k_query_def
          zip3_def doc_t2_def other_tenant_def unset_def tenant_json_def)
  have i: "snd (index_texts empty_store [''T2 internal memo''] (Some [''d1''])
                  (Some [[(''tenant_id'', JStr ''t2'')]])) = demo_store [doc_t2]"
    by (simp add: index_texts_def empty_store_def demo_store_def doc_t2_def zip3_def)
  have r: "rag_query (demo_store [doc_t2]) (JStr ''What is X?'') 3 =
             Inr [\<lparr>document = ''T2 internal memo'', metadata = [(''tenant_id'', JStr ''t2'')],
                   distance = 0\<rparr>]"
    by (simp add: rag_query_def demo_store_def first_k_query_def zip3_def doc_t2_def)
  have lu: "last_user [user_msg ''What is X?''] = JStr ''What is X?''"
    by (simp add: last_user_def user_msg_def)
  have m: "messages_to_send (demo_store [doc_t2]) True [user_msg ''What is X?''] =
             ([JObj [(''role'', JStr ''system''),
                     (''content'', JStr (''Relevant documents:'' @ [newline] @ ''T2 internal memo''))],
               user_msg ''What is X?''],
              [RagQuery (JStr ''What is X?'') 3])"
    by (simp add: messages_to_send_def lu r system_msg_def)
  have p: "get_provider (environ (app_cloud demo_app)) ''olama'' = Some (OlamaProvider None)"
    using demo_provider by (simp add: demo_request_def)
  have t: "snd (snd (post_chat (demo_app\<lparr>app_rag_store := demo_store [doc_t2]\<rparr>) 0 AttrMissing
               (Some ''Bearer abc123'') demo_request)) =
     [VerifyApiKey ''abc123'', GetProvider ''olama'', RagQuery (JStr ''What is X?'') 3,
      SendMessages
        [JObj [(''role'', JStr ''system''),
               (''content'', JStr (''Relevant documents:'' @ [newline] @ ''T2 internal memo''))],
         user_msg ''What is X?'']]"
    by (simp add: post_chat_def demo_auth chat_def demo_request_def p m quota_check_def
          olama_send_messages_def wrap_str_def unset_def)
  show ?thesis
    using i r t v demo_auth by (simp add: user_msg_def)
qed

end
